theory Spec2Isabelle
  imports Complex_Main
begin

section \<open>JavaScript values\<close>

text \<open>
  The values that reach the service are JSON values: the body of an HTTP request and the
  \<open>input\<close> of a tool-use block are parsed JSON, and what \<open>executeTool\<close> returns is an
  object literal that is serialised again.  \<open>JUndefined\<close> is what reading an absent property
  gives.  An object is the list of its own properties; the first binding of a key is the one
  that a property read sees.
\<close>

datatype jsval =
    JUndefined
  | JNull
  | JBool bool
  | JNum real
  | JStr string
  | JArr "jsval list"
  | JObj "(string \<times> jsval) list"

text \<open>What a \<open>throw\<close> carries: the two errors of the language that the code can meet, and
  the rejection of the call to the model provider.\<close>

datatype exn = TypeError | RangeError | APIError string

text \<open>\<open>toolInput.timezone\<close>: reading a property of \<open>undefined\<close> or \<open>null\<close> throws a
  TypeError; an object answers with its own property, or with \<open>undefined\<close> (nothing on the
  prototype chain of a parsed value is called \<open>timezone\<close>); so do the primitives and arrays.\<close>

fun get_timezone :: "jsval \<Rightarrow> exn + jsval" where
  "get_timezone JUndefined = Inl TypeError"
| "get_timezone JNull = Inl TypeError"
| "get_timezone (JObj kvs) = Inr (case map_of kvs ''timezone'' of None \<Rightarrow> JUndefined | Some v \<Rightarrow> v)"
| "get_timezone v = Inr JUndefined"

text \<open>The truthiness that \<open>||\<close> and \<open>!\<close> test.\<close>

fun truthy :: "jsval \<Rightarrow> bool" where
  "truthy JUndefined = False"
| "truthy JNull = False"
| "truthy (JBool b) = b"
| "truthy (JNum x) = (x \<noteq> 0)"
| "truthy (JStr s) = (s \<noteq> [])"
| "truthy (JArr xs) = True"
| "truthy (JObj kvs) = True"

text \<open>
  The conversion to a string that a template literal and the \<open>timeZone\<close> option perform.
  The rendering of a number is a parameter.  An array joins its elements with commas, an
  absent or null element giving the empty string.  A plain object gives
  \<open>[object Object]\<close> through the inherited method, unless it has an own property
  \<open>toString\<close>: a parsed value is never callable, the inherited \<open>valueOf\<close> returns the
  object itself, and the conversion throws a TypeError.
\<close>

fun to_string :: "(real \<Rightarrow> string) \<Rightarrow> jsval \<Rightarrow> exn + string"
  and join_elements :: "(real \<Rightarrow> string) \<Rightarrow> jsval list \<Rightarrow> exn + string" where
  "to_string num JUndefined = Inr ''undefined''"
| "to_string num JNull = Inr ''null''"
| "to_string num (JBool b) = Inr (if b then ''true'' else ''false'')"
| "to_string num (JNum x) = Inr (num x)"
| "to_string num (JStr s) = Inr s"
| "to_string num (JArr xs) = join_elements num xs"
| "to_string num (JObj kvs) =
     (if map_of kvs ''toString'' = None then Inr ''[object Object]'' else Inl TypeError)"
| "join_elements num [] = Inr []"
| "join_elements num (x # xs) =
     (case (if x = JUndefined \<or> x = JNull then Inr [] else to_string num x) of
        Inl e \<Rightarrow> Inl e
      | Inr s \<Rightarrow>
          (if xs = [] then Inr s
           else (case join_elements num xs of
                   Inl e \<Rightarrow> Inl e
                 | Inr t \<Rightarrow> Inr (s @ '','' @ t))))"

section \<open>The environment of one request\<close>

text \<open>A reading of the clock, \<open>new Date()\<close>, with what the code asks of it.\<close>

record date =
  toISOString :: string
  toUTCString :: string
  getTime :: int

text \<open>
  What the runtime supplies and the repository does not hold: the clock (the reading taken by
  the j-th tool call of the i-th iteration), the time zones the runtime knows and its
  formatting of a date in one of them, the rendering of a number, and \<open>JSON.stringify\<close>.
\<close>

record env =
  clock :: "nat \<Rightarrow> nat \<Rightarrow> date"
  valid_timezone :: "string \<Rightarrow> bool"
  format_en_US :: "date \<Rightarrow> string \<Rightarrow> string"
  number_to_string :: "real \<Rightarrow> string"
  json_stringify :: "jsval \<Rightarrow> string"

text \<open>\<open>now.toLocaleString('en-US', { timeZone: timezone })\<close>: the option is converted to a
  string, and a name the runtime does not know is a RangeError.\<close>

definition toLocaleString :: "env \<Rightarrow> date \<Rightarrow> jsval \<Rightarrow> exn + string" where
  "toLocaleString e now timezone =
     (case to_string (number_to_string e) timezone of
        Inl x \<Rightarrow> Inl x
      | Inr s \<Rightarrow> if valid_timezone e s then Inr (format_en_US e now s) else Inl RangeError)"

section \<open>Tool registry\<close>

record tool_spec =
  name :: string
  description :: string
  input_schema :: jsval

definition tools :: "tool_spec list" where
  "tools =
     [\<lparr>name = ''get_current_time'',
       description = ''Get the current date and time. Returns the current timestamp in ISO format along with a human-readable format.'',
       input_schema = JObj
         [(''type'', JStr ''object''),
          (''properties'', JObj
             [(''timezone'', JObj
                [(''type'', JStr ''string''),
                 (''description'', JStr (''Optional timezone (e.g., '' @ [CHR 0x22] @ ''America/New_York''
                    @ [CHR 0x22] @ '', '' @ [CHR 0x22] @ ''Europe/London'' @ [CHR 0x22]
                    @ ''). Defaults to UTC if not specified.''))])]),
          (''required'', JArr [])]\<rparr>]"

text \<open>The note of the fallback result: \<open>Invalid timezone "<timezone>", defaulted to UTC\<close>.\<close>

definition invalid_timezone_note :: "string \<Rightarrow> string" where
  "invalid_timezone_note s = ''Invalid timezone '' @ [CHR 0x22] @ s @ [CHR 0x22] @ '', defaulted to UTC''"

text \<open>
  \<open>executeTool(toolName, toolInput)\<close>, with the reading of the clock it takes as an argument.
  The property read stands before the \<open>try\<close>, so its TypeError leaves the function; the
  \<open>catch\<close> takes whatever \<open>toLocaleString\<close> throws, and the template literal inside it
  converts \<open>timezone\<close> once more, outside any \<open>try\<close>.
\<close>

definition executeTool :: "env \<Rightarrow> date \<Rightarrow> string \<Rightarrow> jsval \<Rightarrow> exn + jsval" where
  "executeTool e now toolName toolInput =
     (if toolName = ''get_current_time'' then
        (case get_timezone toolInput of
           Inl x \<Rightarrow> Inl x
         | Inr tz \<Rightarrow>
             (let timezone = (if truthy tz then tz else JStr ''UTC'') in
              case toLocaleString e now timezone of
                Inr formatted \<Rightarrow>
                  Inr (JObj [(''iso'', JStr (toISOString now)),
                             (''formatted'', JStr formatted),
                             (''timezone'', timezone),
                             (''unix_timestamp'', JNum (of_int (getTime now div 1000)))])
              | Inl caught \<Rightarrow>
                  (case to_string (number_to_string e) timezone of
                     Inl x \<Rightarrow> Inl x
                   | Inr s \<Rightarrow>
                       Inr (JObj [(''iso'', JStr (toISOString now)),
                                  (''formatted'', JStr (toUTCString now)),
                                  (''timezone'', JStr ''UTC''),
                                  (''unix_timestamp'', JNum (of_int (getTime now div 1000))),
                                  (''note'', JStr (invalid_timezone_note s))]))))
      else Inr (JObj [(''error'', JStr (''Unknown tool: '' @ toolName))]))"

section \<open>Transcripts\<close>

datatype block =
    Text (block_text: string)
  | ToolUse (tu_id: string) (tu_name: string) (tu_input: jsval)
  | ToolResult (tool_use_id: string) (result_content: string)

datatype role = User | Assistant

datatype turn_content = Plain string | Blocks "block list"

record turn =
  role :: role
  content :: turn_content

record usage =
  input_tokens :: nat
  output_tokens :: nat

record model_response =
  response_content :: "block list"
  stop_reason :: string
  response_usage :: usage

text \<open>The argument of \<open>anthropic.messages.create\<close>, and the call itself: a capability of the
  environment that answers a request with a response or fails.\<close>

record create_params =
  model :: string
  max_tokens :: nat
  system :: string
  tools_param :: "tool_spec list"
  messages :: "turn list"

type_synonym model_client = "create_params \<Rightarrow> exn + model_response"

definition create_request :: "turn list \<Rightarrow> create_params" where
  "create_request msgs =
     \<lparr>model = ''claude-sonnet-4-20250514'',
      max_tokens = 1024,
      system = ''You are a helpful assistant. You have access to tools that you can use to help answer questions. Use tools when appropriate to provide accurate information.'',
      tools_param = tools,
      messages = msgs\<rparr>"

section \<open>Session store\<close>

text \<open>\<open>messageHistory\<close>, the map from a session id to its array of turns.  The handler's
  \<open>messages\<close> is the array that the map holds for the session, so that a \<open>push\<close> on it
  is a change of the map's entry.\<close>

type_synonym store = "string \<rightharpoonup> turn list"

definition get_or_create :: "store \<Rightarrow> string \<Rightarrow> store" where
  "get_or_create messageHistory session_id =
     (if messageHistory session_id = None then messageHistory(session_id \<mapsto> [])
      else messageHistory)"

definition messages_of :: "store \<Rightarrow> string \<Rightarrow> turn list" where
  "messages_of messageHistory session_id =
     (case messageHistory session_id of None \<Rightarrow> [] | Some msgs \<Rightarrow> msgs)"

definition push :: "store \<Rightarrow> string \<Rightarrow> turn \<Rightarrow> store" where
  "push messageHistory session_id t =
     messageHistory(session_id \<mapsto> messages_of messageHistory session_id @ [t])"

section \<open>HTTP responses\<close>

datatype body =
    ChatReply (reply: string) (reply_session: string) (reply_usage: usage) (reply_iterations: nat)
  | ErrorBody string
  | MessageBody string
  | HistoryBody string "turn list"

record http_response =
  status :: nat
  json :: body

section \<open>Agent loop\<close>

definition maxIterations :: nat where
  "maxIterations = 10"

record loop_state =
  messageHistory :: store
  totalUsage :: usage
  iterations :: nat

definition add_usage :: "usage \<Rightarrow> usage \<Rightarrow> usage" where
  "add_usage acc u =
     \<lparr>input_tokens = input_tokens acc + input_tokens u,
      output_tokens = output_tokens acc + output_tokens u\<rparr>"

text \<open>The callback of \<open>toolUseBlocks.map\<close>, applied to the blocks in order; an exception of
  \<open>executeTool\<close> ends the traversal.\<close>

fun tool_results :: "env \<Rightarrow> nat \<Rightarrow> nat \<Rightarrow> block list \<Rightarrow> exn + block list" where
  "tool_results e i j [] = Inr []"
| "tool_results e i j (toolUse # rest) =
     (case executeTool e (clock e i j) (tu_name toolUse) (tu_input toolUse) of
        Inl x \<Rightarrow> Inl x
      | Inr result \<Rightarrow>
          (case tool_results e i (Suc j) rest of
             Inl x \<Rightarrow> Inl x
           | Inr results \<Rightarrow>
               Inr (ToolResult (tu_id toolUse) (json_stringify e result) # results)))"

text \<open>How one pass through the body of the \<open>while\<close> ends: at its end, at the \<open>return\<close>, or
  with an exception.\<close>

datatype step =
    Continue loop_state
  | Return loop_state http_response
  | Throw loop_state exn

definition first_text :: "block list \<Rightarrow> string" where
  "first_text bs = (case find is_Text bs of None \<Rightarrow> [] | Some textContent \<Rightarrow> block_text textContent)"

definition loop_body :: "env \<Rightarrow> model_client \<Rightarrow> string \<Rightarrow> loop_state \<Rightarrow> step" where
  "loop_body e client session_id s0 =
     (let s1 = s0\<lparr>iterations := Suc (iterations s0)\<rparr> in
      case client (create_request (messages_of (messageHistory s1) session_id)) of
        Inl x \<Rightarrow> Throw s1 x
      | Inr response \<Rightarrow>
          (let s2 = s1\<lparr>totalUsage := add_usage (totalUsage s1) (response_usage response)\<rparr>;
               toolUseBlocks = filter is_ToolUse (response_content response)
           in if stop_reason response = ''tool_use'' \<and> length toolUseBlocks > 0 then
                (let s3 = s2\<lparr>messageHistory := push (messageHistory s2) session_id
                             \<lparr>role = Assistant, content = Blocks (response_content response)\<rparr>\<rparr>
                 in case tool_results e (iterations s3) 0 toolUseBlocks of
                      Inl x \<Rightarrow> Throw s3 x
                    | Inr toolResults \<Rightarrow>
                        Continue (s3\<lparr>messageHistory := push (messageHistory s3) session_id
                                    \<lparr>role = User, content = Blocks toolResults\<rparr>\<rparr>))
              else
                (let s3 = s2\<lparr>messageHistory := push (messageHistory s2) session_id
                             \<lparr>role = Assistant, content = Blocks (response_content response)\<rparr>\<rparr>
                 in Return s3
                      \<lparr>status = 200,
                       json = ChatReply (first_text (response_content response)) session_id
                                (totalUsage s3) (iterations s3)\<rparr>)))"

lemma loop_body_iterations:
  "loop_body e client session_id s = Continue s' \<Longrightarrow> iterations s' = Suc (iterations s)"
  by (auto simp: loop_body_def Let_def split: sum.splits if_splits)

text \<open>How the \<open>while\<close> ends: by its \<open>return\<close>, by an exception, or by its condition.\<close>

datatype loop_exit =
    Returned loop_state http_response
  | Thrown loop_state exn
  | Exhausted loop_state

function agent_loop :: "env \<Rightarrow> model_client \<Rightarrow> string \<Rightarrow> loop_state \<Rightarrow> loop_exit" where
  "agent_loop e client session_id s =
     (if iterations s < maxIterations then
        (case loop_body e client session_id s of
           Continue s' \<Rightarrow> agent_loop e client session_id s'
         | Return s' res \<Rightarrow> Returned s' res
         | Throw s' x \<Rightarrow> Thrown s' x)
      else Exhausted s)"
  by pat_completeness auto
termination
  by (relation "measure (\<lambda>(e, client, session_id, s). maxIterations - iterations s)")
     (auto dest: loop_body_iterations)

declare agent_loop.simps [simp del]

section \<open>Request handlers\<close>

text \<open>The body of a \<open>POST /chat\<close> request, as the interface declares it: a message and a
  session id, both strings, either of which may be absent.\<close>

record chat_body =
  message :: "string option"
  session_id :: "string option"

definition post_chat :: "env \<Rightarrow> model_client \<Rightarrow> store \<Rightarrow> chat_body \<Rightarrow> store \<times> http_response" where
  "post_chat e client history req_body =
     (case message req_body of
        None \<Rightarrow> (history, \<lparr>status = 400, json = ErrorBody ''Message is required''\<rparr>)
      | Some msg \<Rightarrow>
          if msg = [] then (history, \<lparr>status = 400, json = ErrorBody ''Message is required''\<rparr>)
          else
            (let sid = (case session_id req_body of None \<Rightarrow> ''default'' | Some s \<Rightarrow> s);
                 h1 = get_or_create history sid;
                 h2 = push h1 sid \<lparr>role = User, content = Plain msg\<rparr>
             in case agent_loop e client sid
                       \<lparr>messageHistory = h2,
                        totalUsage = \<lparr>input_tokens = 0, output_tokens = 0\<rparr>,
                        iterations = 0\<rparr> of
                  Returned s res \<Rightarrow> (messageHistory s, res)
                | Exhausted s \<Rightarrow>
                    (messageHistory s,
                     \<lparr>status = 500, json = ErrorBody ''Agent loop exceeded maximum iterations''\<rparr>)
                | Thrown s x \<Rightarrow>
                    (messageHistory s,
                     \<lparr>status = 500, json = ErrorBody ''Failed to get response from LLM''\<rparr>)))"

definition delete_chat :: "store \<Rightarrow> string \<Rightarrow> store \<times> http_response" where
  "delete_chat history sid =
     (if history sid \<noteq> None then
        (history(sid := None),
         \<lparr>status = 200, json = MessageBody (''Session '' @ sid @ '' cleared'')\<rparr>)
      else (history, \<lparr>status = 404, json = ErrorBody ''Session not found''\<rparr>))"

definition get_chat :: "store \<Rightarrow> string \<Rightarrow> http_response" where
  "get_chat history sid =
     (if history sid \<noteq> None then
        \<lparr>status = 200, json = HistoryBody sid (messages_of history sid)\<rparr>
      else \<lparr>status = 404, json = ErrorBody ''Session not found''\<rparr>)"

section \<open>Vocabulary of the properties\<close>

text \<open>
  What the input schema of \<open>get_current_time\<close> declares: an object whose \<open>timezone\<close>,
  when it has one, is a string.
\<close>

fun conforms_schema :: "jsval \<Rightarrow> bool" where
  "conforms_schema (JObj kvs) =
     (case map_of kvs ''timezone'' of None \<Rightarrow> True | Some (JStr s) \<Rightarrow> True | Some v \<Rightarrow> False)"
| "conforms_schema v = False"

text \<open>
  The inputs on which the time tool returns: the property read succeeds (the input is neither
  \<open>undefined\<close> nor \<open>null\<close>), and the time zone read from it is falsy or has a conversion to
  a string.  Every input of the declared shape is one of them.
\<close>

definition input_accepted :: "env \<Rightarrow> jsval \<Rightarrow> bool" where
  "input_accepted e toolInput =
     (case get_timezone toolInput of
        Inl x \<Rightarrow> False
      | Inr tz \<Rightarrow>
          (if truthy tz then
             (case to_string (number_to_string e) tz of Inl x \<Rightarrow> False | Inr s \<Rightarrow> True)
           else True))"

text \<open>A tool-use block that names the time tool carries such an input; any other name is
  unknown to the registry, whatever its input.\<close>

definition tool_call_ok :: "env \<Rightarrow> block \<Rightarrow> bool" where
  "tool_call_ok e b =
     (if tu_name b = ''get_current_time'' then input_accepted e (tu_input b) else True)"

text \<open>The state in which the loop was left.\<close>

fun exit_state :: "loop_exit \<Rightarrow> loop_state" where
  "exit_state (Returned s res) = s"
| "exit_state (Thrown s x) = s"
| "exit_state (Exhausted s) = s"

text \<open>The state at the head of the \<open>while\<close> after \<open>k\<close> passes that each ran to the end of
  the body (the tool-dispatch branch); \<open>None\<close> when an earlier pass left the loop.\<close>

fun rounds :: "env \<Rightarrow> model_client \<Rightarrow> string \<Rightarrow> nat \<Rightarrow> loop_state \<Rightarrow> loop_state option" where
  "rounds e client sid 0 s = Some s"
| "rounds e client sid (Suc k) s =
     (if iterations s < maxIterations then
        (case loop_body e client sid s of
           Continue s' \<Rightarrow> rounds e client sid k s'
         | Return s' res \<Rightarrow> None
         | Throw s' x \<Rightarrow> None)
      else None)"

text \<open>A turn asks for tools when it is an assistant turn with tool-use blocks; a turn answers
  it when it is a user turn of tool-result blocks only, one per tool-use block, carrying the
  ids of those blocks in their order.  A transcript is answered when every asking turn is
  immediately followed by an answering one.\<close>

definition tool_uses :: "turn \<Rightarrow> block list" where
  "tool_uses t = (case content t of Plain s \<Rightarrow> [] | Blocks bs \<Rightarrow> filter is_ToolUse bs)"

definition asks_tools :: "turn \<Rightarrow> bool" where
  "asks_tools t = (role t = Assistant \<and> tool_uses t \<noteq> [])"

definition answers :: "turn \<Rightarrow> turn \<Rightarrow> bool" where
  "answers a u =
     (role u = User \<and>
      (case content u of
         Plain s \<Rightarrow> False
       | Blocks rs \<Rightarrow> list_all is_ToolResult rs \<and> map tool_use_id rs = map tu_id (tool_uses a)))"

fun answered :: "turn list \<Rightarrow> bool" where
  "answered [] = True"
| "answered [t] = (\<not> asks_tools t)"
| "answered (t # u # ts) = ((asks_tools t \<longrightarrow> answers t u) \<and> answered (u # ts))"

text \<open>An assistant/user pair of one tool round.\<close>

fun tool_round :: "turn list \<Rightarrow> bool" where
  "tool_round [a, u] = (asks_tools a \<and> answers a u)"
| "tool_round ts = False"

definition usage_le :: "usage \<Rightarrow> usage \<Rightarrow> bool" where
  "usage_le u v = (input_tokens u \<le> input_tokens v \<and> output_tokens u \<le> output_tokens v)"

text \<open>A response whose tool-use blocks come with the stop reason \<open>tool_use\<close> only, and whose
  tool calls return.\<close>

definition well_formed_response :: "env \<Rightarrow> model_response \<Rightarrow> bool" where
  "well_formed_response e r =
     ((filter is_ToolUse (response_content r) \<noteq> [] \<longrightarrow> stop_reason r = ''tool_use'') \<and>
      list_all (tool_call_ok e) (filter is_ToolUse (response_content r)))"

text \<open>The state in which one pass through the body was left.\<close>

fun step_state :: "step \<Rightarrow> loop_state" where
  "step_state (Continue s) = s"
| "step_state (Return s res) = s"
| "step_state (Throw s x) = s"

text \<open>The state in which \<open>POST /chat\<close> enters the loop, and the session it works on.\<close>

definition start_state :: "store \<Rightarrow> string \<Rightarrow> string \<Rightarrow> loop_state" where
  "start_state history sid msg =
     \<lparr>messageHistory = push (get_or_create history sid) sid \<lparr>role = User, content = Plain msg\<rparr>,
      totalUsage = \<lparr>input_tokens = 0, output_tokens = 0\<rparr>,
      iterations = 0\<rparr>"

definition session_of :: "chat_body \<Rightarrow> string" where
  "session_of req_body = (case session_id req_body of None \<Rightarrow> ''default'' | Some s \<Rightarrow> s)"

text \<open>The responses the model gave in the first \<open>k\<close> passes of the loop from a state, in
  their order; the list ends with the pass that left the loop.\<close>

fun replies :: "env \<Rightarrow> model_client \<Rightarrow> string \<Rightarrow> nat \<Rightarrow> loop_state \<Rightarrow> model_response list" where
  "replies e client sid 0 s = []"
| "replies e client sid (Suc k) s =
     (case client (create_request (messages_of (messageHistory s) sid)) of
        Inl x \<Rightarrow> []
      | Inr r \<Rightarrow>
          (case loop_body e client sid s of
             Continue s' \<Rightarrow> r # replies e client sid k s'
           | Return s' res \<Rightarrow> [r]
           | Throw s' x \<Rightarrow> [r]))"

section \<open>An example environment\<close>

text \<open>A fixed clock, three known time zones and a serialiser of flat objects, with the
  model clients and request bodies that the instances below run on.\<close>

definition demo_date :: date where
  "demo_date =
     \<lparr>toISOString = ''2025-01-01T12:00:00.000Z'',
      toUTCString = ''Wed, 01 Jan 2025 12:00:00 GMT'',
      getTime = 1735732800123\<rparr>"

fun demo_value :: "jsval \<Rightarrow> string" where
  "demo_value (JStr s) = [CHR 0x22] @ s @ [CHR 0x22]"
| "demo_value (JNum x) = ''1735732800''"
| "demo_value v = ''null''"

fun demo_fields :: "(string \<times> jsval) list \<Rightarrow> string" where
  "demo_fields [] = []"
| "demo_fields [(k, v)] = [CHR 0x22] @ k @ [CHR 0x22] @ '':'' @ demo_value v"
| "demo_fields ((k, v) # kvs) =
     [CHR 0x22] @ k @ [CHR 0x22] @ '':'' @ demo_value v @ '','' @ demo_fields kvs"

fun demo_stringify :: "jsval \<Rightarrow> string" where
  "demo_stringify (JObj kvs) = ''{'' @ demo_fields kvs @ ''}''"
| "demo_stringify v = demo_value v"

definition demo_env :: env where
  "demo_env =
     \<lparr>clock = (\<lambda>i j. demo_date),
      valid_timezone = (\<lambda>s. s \<in> set [''UTC'', ''America/New_York'', ''Europe/London'']),
      format_en_US = (\<lambda>d s. ''1/1/2025, 12:00:00 PM''),
      number_to_string = (\<lambda>x. ''1735732800''),
      json_stringify = demo_stringify\<rparr>"

definition body_hi :: chat_body where
  "body_hi = \<lparr>message = Some ''hi'', session_id = None\<rparr>"

definition demo_usage :: usage where
  "demo_usage = \<lparr>input_tokens = 12, output_tokens = 3\<rparr>"

text \<open>A model that answers at once.\<close>

definition client_hello :: model_client where
  "client_hello p =
     Inr \<lparr>response_content = [Text ''Hello''], stop_reason = ''end_turn'',
          response_usage = demo_usage\<rparr>"

text \<open>A model that ends its turn with no content.\<close>

definition client_silent :: model_client where
  "client_silent p =
     Inr \<lparr>response_content = [], stop_reason = ''end_turn'', response_usage = demo_usage\<rparr>"

text \<open>A model that asks for the time and for an unknown tool, then answers.\<close>

definition client_once :: model_client where
  "client_once p =
     (if length (messages p) \<le> 1 then
        Inr \<lparr>response_content =
               [Text ''Let me check.'',
                ToolUse ''t1'' ''get_current_time'' (JObj []),
                ToolUse ''t2'' ''get_weather'' JNull],
             stop_reason = ''tool_use'', response_usage = demo_usage\<rparr>
      else
        Inr \<lparr>response_content = [Text ''It is now noon''], stop_reason = ''end_turn'',
             response_usage = demo_usage\<rparr>)"

text \<open>A model that asks for the time on every call.\<close>

definition client_always :: model_client where
  "client_always p =
     Inr \<lparr>response_content = [ToolUse ''t1'' ''get_current_time'' (JObj [])],
          stop_reason = ''tool_use'', response_usage = demo_usage\<rparr>"

text \<open>A model whose tool call carries no input object.\<close>

definition client_null :: model_client where
  "client_null p =
     Inr \<lparr>response_content = [ToolUse ''t1'' ''get_current_time'' JNull],
          stop_reason = ''tool_use'', response_usage = demo_usage\<rparr>"

text \<open>A model whose answer was cut at the token limit, inside a tool call.\<close>

definition client_cut :: model_client where
  "client_cut p =
     Inr \<lparr>response_content =
            [Text ''Let me check.'', ToolUse ''t1'' ''get_current_time'' (JObj [])],
          stop_reason = ''max_tokens'', response_usage = demo_usage\<rparr>"

text \<open>A provider that is down, and one that goes down after the first tool round.\<close>

definition client_down :: model_client where
  "client_down p = Inl (APIError ''overloaded'')"


text \<open>A model that asks for the time once and then answers, with a different usage.\<close>

definition usage_30_20 :: usage where
  "usage_30_20 = \<lparr>input_tokens = 30, output_tokens = 20\<rparr>"

definition client_two :: model_client where
  "client_two p =
     (if length (messages p) \<le> 1 then
        Inr \<lparr>response_content = [ToolUse ''t1'' ''get_current_time'' (JObj [])],
             stop_reason = ''tool_use'', response_usage = demo_usage\<rparr>
      else
        Inr \<lparr>response_content = [Text ''It is now noon''], stop_reason = ''end_turn'',
             response_usage = usage_30_20\<rparr>)"

section \<open>Basic facts\<close>


lemma executeTool_unknown:
  "toolName \<noteq> ''get_current_time'' \<Longrightarrow>
   executeTool e now toolName toolInput = Inr (JObj [(''error'', JStr (''Unknown tool: '' @ toolName))])"
  by (simp add: executeTool_def)

lemma executeTool_accepted:
  "(\<exists>v. executeTool e now ''get_current_time'' toolInput = Inr v) = input_accepted e toolInput"
  by (auto simp: executeTool_def input_accepted_def toLocaleString_def Let_def
      split: sum.splits if_splits)

lemma conforms_accepted:
  assumes "conforms_schema toolInput"
  shows "input_accepted e toolInput"
proof -
  from assms obtain kvs where inp: "toolInput = JObj kvs"
    by (cases toolInput) auto
  show ?thesis
  proof (cases "map_of kvs ''timezone''")
    case None
    then show ?thesis
      by (simp add: inp input_accepted_def)
  next
    case (Some v)
    with assms inp obtain s where "v = JStr s"
      by (cases v) auto
    with Some show ?thesis
      by (simp add: inp input_accepted_def)
  qed
qed

lemma executeTool_ok:
  "(\<exists>v. executeTool e now (tu_name b) (tu_input b) = Inr v) = tool_call_ok e b"
  using executeTool_accepted [of e now "tu_input b"] executeTool_unknown [of "tu_name b" e now "tu_input b"]
  by (auto simp: tool_call_ok_def)

lemma tool_results_ok:
  "list_all (tool_call_ok e) bs \<Longrightarrow> \<exists>rs. tool_results e i j bs = Inr rs"
proof (induction bs arbitrary: j)
  case Nil
  then show ?case by simp
next
  case (Cons b bs)
  then obtain v where "executeTool e (clock e i j) (tu_name b) (tu_input b) = Inr v"
    using executeTool_ok [of e "clock e i j" b] by auto
  moreover from Cons obtain rs where "tool_results e i (Suc j) bs = Inr rs"
    by auto
  ultimately show ?case by simp
qed

lemma tool_results_throws:
  "\<not> list_all (tool_call_ok e) bs \<Longrightarrow> \<exists>x. tool_results e i j bs = Inl x"
proof (induction bs arbitrary: j)
  case Nil
  then show ?case by simp
next
  case (Cons b bs)
  show ?case
  proof (cases "tool_call_ok e b")
    case False
    with executeTool_ok [of e "clock e i j" b]
    have "\<exists>x. executeTool e (clock e i j) (tu_name b) (tu_input b) = Inl x"
      by (cases "executeTool e (clock e i j) (tu_name b) (tu_input b)") auto
    then show ?thesis by auto
  next
    case True
    with Cons.prems have "\<not> list_all (tool_call_ok e) bs" by simp
    from Cons.IH [OF this, of "Suc j"] obtain x where "tool_results e i (Suc j) bs = Inl x" ..
    then show ?thesis
      by (simp split: sum.splits)
  qed
qed

lemma tool_results_shape:
  "tool_results e i j bs = Inr rs \<Longrightarrow>
   map tool_use_id rs = map tu_id bs \<and> list_all is_ToolResult rs \<and> length rs = length bs"
  by (induction bs arbitrary: j rs) (auto split: sum.splits)

lemma tool_results_content:
  "tool_results e i j bs = Inr rs \<Longrightarrow> k < length bs \<Longrightarrow>
   \<exists>v. executeTool e (clock e i (j + k)) (tu_name (bs ! k)) (tu_input (bs ! k)) = Inr v \<and>
       rs ! k = ToolResult (tu_id (bs ! k)) (json_stringify e v)"
proof (induction bs arbitrary: j rs k)
  case Nil
  then show ?case by simp
next
  case (Cons b bs)
  from Cons.prems(1) obtain v rs' where
    v: "executeTool e (clock e i j) (tu_name b) (tu_input b) = Inr v" and
    rest: "tool_results e i (Suc j) bs = Inr rs'" and
    rs: "rs = ToolResult (tu_id b) (json_stringify e v) # rs'"
    by (auto split: sum.splits)
  show ?case
  proof (cases k)
    case 0
    with v rs show ?thesis by simp
  next
    case (Suc k')
    with Cons.prems(2) have "k' < length bs" by simp
    from Cons.IH [OF rest this] Suc rs show ?thesis by simp
  qed
qed

lemma messages_of_push [simp]:
  "messages_of (push h sid t) sid = messages_of h sid @ [t]"
  by (simp add: push_def messages_of_def)

lemma messages_of_push_other [simp]:
  "sid' \<noteq> sid \<Longrightarrow> messages_of (push h sid t) sid' = messages_of h sid'"
  by (simp add: push_def messages_of_def)

lemma push_same [simp]: "push h sid t sid = Some (messages_of h sid @ [t])"
  by (simp add: push_def)

lemma push_other [simp]: "sid' \<noteq> sid \<Longrightarrow> push h sid t sid' = h sid'"
  by (simp add: push_def)

lemma messages_of_get_or_create [simp]:
  "messages_of (get_or_create h sid) sid' = messages_of h sid'"
  by (simp add: get_or_create_def messages_of_def)

lemma get_or_create_same [simp]: "get_or_create h sid sid = Some (messages_of h sid)"
  by (auto simp: get_or_create_def messages_of_def)

lemma get_or_create_other [simp]: "sid' \<noteq> sid \<Longrightarrow> get_or_create h sid sid' = h sid'"
  by (simp add: get_or_create_def)

lemma loop_body_client_fails:
  "client (create_request (messages_of (messageHistory s) sid)) = Inl x \<Longrightarrow>
   loop_body e client sid s = Throw (s\<lparr>iterations := Suc (iterations s)\<rparr>) x"
  by (simp add: loop_body_def)

lemma loop_body_terminal:
  "client (create_request (messages_of (messageHistory s) sid)) = Inr r \<Longrightarrow>
   \<not> (stop_reason r = ''tool_use'' \<and> filter is_ToolUse (response_content r) \<noteq> []) \<Longrightarrow>
   loop_body e client sid s =
     Return (s\<lparr>iterations := Suc (iterations s),
               totalUsage := add_usage (totalUsage s) (response_usage r),
               messageHistory := push (messageHistory s) sid
                 \<lparr>role = Assistant, content = Blocks (response_content r)\<rparr>\<rparr>)
       \<lparr>status = 200,
        json = ChatReply (first_text (response_content r)) sid
                 (add_usage (totalUsage s) (response_usage r)) (Suc (iterations s))\<rparr>"
  by (auto simp: loop_body_def Let_def)

lemma loop_body_tools:
  "client (create_request (messages_of (messageHistory s) sid)) = Inr r \<Longrightarrow>
   stop_reason r = ''tool_use'' \<Longrightarrow> filter is_ToolUse (response_content r) \<noteq> [] \<Longrightarrow>
   tool_results e (Suc (iterations s)) 0 (filter is_ToolUse (response_content r)) = Inr rs \<Longrightarrow>
   loop_body e client sid s =
     Continue (s\<lparr>iterations := Suc (iterations s),
                 totalUsage := add_usage (totalUsage s) (response_usage r),
                 messageHistory := push (push (messageHistory s) sid
                   \<lparr>role = Assistant, content = Blocks (response_content r)\<rparr>) sid
                   \<lparr>role = User, content = Blocks rs\<rparr>\<rparr>)"
  by (simp add: loop_body_def Let_def)

lemma loop_body_tool_throws:
  "client (create_request (messages_of (messageHistory s) sid)) = Inr r \<Longrightarrow>
   stop_reason r = ''tool_use'' \<Longrightarrow> filter is_ToolUse (response_content r) \<noteq> [] \<Longrightarrow>
   tool_results e (Suc (iterations s)) 0 (filter is_ToolUse (response_content r)) = Inl x \<Longrightarrow>
   loop_body e client sid s =
     Throw (s\<lparr>iterations := Suc (iterations s),
              totalUsage := add_usage (totalUsage s) (response_usage r),
              messageHistory := push (messageHistory s) sid
                \<lparr>role = Assistant, content = Blocks (response_content r)\<rparr>\<rparr>) x"
  by (simp add: loop_body_def Let_def)

lemma agent_loop_rounds:
  "rounds e client sid k s = Some s' \<Longrightarrow> agent_loop e client sid s = agent_loop e client sid s'"
proof (induction k arbitrary: s)
  case 0
  then show ?case by simp
next
  case (Suc k)
  then show ?case
    by (subst agent_loop.simps) (auto split: if_splits step.splits)
qed

lemma rounds_iterations:
  "rounds e client sid k s = Some s' \<Longrightarrow> iterations s' = iterations s + k"
proof (induction k arbitrary: s)
  case 0
  then show ?case by simp
next
  case (Suc k)
  then show ?case
    by (auto split: if_splits step.splits dest!: loop_body_iterations)
qed

lemma answered_append:
  "answered xs \<Longrightarrow> answered ys \<Longrightarrow> answered (xs @ ys)"
proof (induction xs rule: answered.induct)
  case 1
  then show ?case by simp
next
  case (2 t)
  then show ?case by (cases ys) auto
next
  case (3 t u ts)
  then show ?case by auto
qed

lemma loop_body_extends:
  "\<exists>ext. messages_of (messageHistory (step_state (loop_body e client sid s))) sid
          = messages_of (messageHistory s) sid @ ext"
  by (auto simp: loop_body_def Let_def split: sum.splits)

lemma loop_body_defined:
  "messageHistory s sid \<noteq> None \<Longrightarrow>
   messageHistory (step_state (loop_body e client sid s)) sid \<noteq> None"
  by (auto simp: loop_body_def Let_def split: sum.splits)

lemma loop_body_other:
  "sid' \<noteq> sid \<Longrightarrow>
   messageHistory (step_state (loop_body e client sid s)) sid' = messageHistory s sid'"
  by (auto simp: loop_body_def Let_def split: sum.splits)

lemma messages_of_empty [simp]: "messages_of Map.empty sid = []"
  by (simp add: messages_of_def)

lemma agent_loop_invariant:
  assumes step: "\<And>s. P s \<Longrightarrow> P (step_state (loop_body e client sid s))"
    and init: "P s"
  shows "P (exit_state (agent_loop e client sid s))"
  using step init
proof (induction e client sid s rule: agent_loop.induct)
  case (1 e client sid s)
  show ?case
  proof (cases "iterations s < maxIterations")
    case False
    with "1.prems" show ?thesis by (subst agent_loop.simps) simp
  next
    case True
    from "1.prems"(1) [OF "1.prems"(2)] have P': "P (step_state (loop_body e client sid s))" .
    show ?thesis
    proof (cases "loop_body e client sid s")
      case (Continue s')
      with P' have "P s'" by simp
      from "1.IH" [OF True Continue "1.prems"(1) this] Continue True show ?thesis
        by (subst agent_loop.simps) simp
    next
      case (Return s' res)
      with P' True show ?thesis by (subst agent_loop.simps) simp
    next
      case (Throw s' x)
      with P' True show ?thesis by (subst agent_loop.simps) simp
    qed
  qed
qed

lemma agent_loop_extends:
  "\<exists>ext. messages_of (messageHistory (exit_state (agent_loop e client sid s))) sid
          = messages_of (messageHistory s) sid @ ext"
proof (rule agent_loop_invariant
    [where P = "\<lambda>s' :: loop_state. \<exists>ext. messages_of (messageHistory s') sid
                  = messages_of (messageHistory s) sid @ ext"])
  fix s' :: loop_state
  assume "\<exists>ext. messages_of (messageHistory s') sid = messages_of (messageHistory s) sid @ ext"
  moreover from loop_body_extends [of e client sid s'] obtain ext' where
    "messages_of (messageHistory (step_state (loop_body e client sid s'))) sid
       = messages_of (messageHistory s') sid @ ext'" ..
  ultimately show "\<exists>ext. messages_of (messageHistory (step_state (loop_body e client sid s'))) sid
                    = messages_of (messageHistory s) sid @ ext"
    by auto
next
  show "\<exists>ext. messages_of (messageHistory s) sid = messages_of (messageHistory s) sid @ ext"
    by simp
qed

lemma agent_loop_defined:
  assumes "messageHistory s sid \<noteq> None"
  shows "messageHistory (exit_state (agent_loop e client sid s)) sid \<noteq> None"
proof (rule agent_loop_invariant [where P = "\<lambda>s' :: loop_state. messageHistory s' sid \<noteq> None"])
  fix s' :: loop_state
  assume "messageHistory s' sid \<noteq> None"
  then show "messageHistory (step_state (loop_body e client sid s')) sid \<noteq> None"
    by (rule loop_body_defined)
next
  from assms show "messageHistory s sid \<noteq> None" .
qed

lemma agent_loop_other:
  assumes "sid' \<noteq> sid"
  shows "messageHistory (exit_state (agent_loop e client sid s)) sid' = messageHistory s sid'"
proof (rule agent_loop_invariant
    [where P = "\<lambda>s' :: loop_state. messageHistory s' sid' = messageHistory s sid'"])
  fix s' :: loop_state
  assume "messageHistory s' sid' = messageHistory s sid'"
  with loop_body_other [OF assms, of e client s']
  show "messageHistory (step_state (loop_body e client sid s')) sid' = messageHistory s sid'"
    by simp
next
  show "messageHistory s sid' = messageHistory s sid'" ..
qed

lemma post_chat_run:
  "message req_body = Some msg \<Longrightarrow> msg \<noteq> [] \<Longrightarrow>
   post_chat e client history req_body =
     (case agent_loop e client (session_of req_body) (start_state history (session_of req_body) msg) of
        Returned s res \<Rightarrow> (messageHistory s, res)
      | Exhausted s \<Rightarrow>
          (messageHistory s,
           \<lparr>status = 500, json = ErrorBody ''Agent loop exceeded maximum iterations''\<rparr>)
      | Thrown s x \<Rightarrow>
          (messageHistory s,
           \<lparr>status = 500, json = ErrorBody ''Failed to get response from LLM''\<rparr>))"
  by (simp add: post_chat_def start_state_def session_of_def Let_def)

lemma post_chat_store:
  "message req_body = Some msg \<Longrightarrow> msg \<noteq> [] \<Longrightarrow>
   fst (post_chat e client history req_body) =
     messageHistory (exit_state (agent_loop e client (session_of req_body)
       (start_state history (session_of req_body) msg)))"
  by (simp add: post_chat_run split: loop_exit.splits)

lemma post_chat_rejects:
  "message req_body = None \<or> message req_body = Some [] \<Longrightarrow>
   post_chat e client history req_body =
     (history, \<lparr>status = 400, json = ErrorBody ''Message is required''\<rparr>)"
  by (auto simp: post_chat_def)

section \<open>Session store: round trip and deletion\<close>

lemma foldl_push:
  "messages_of (foldl (\<lambda>h t. push h sid t) h ts) sid = messages_of h sid @ ts"
  by (induction ts arbitrary: h) simp_all

lemma foldl_push_defined:
  "h sid \<noteq> None \<Longrightarrow> foldl (\<lambda>h t. push h sid t) h ts sid \<noteq> None"
  by (induction ts arbitrary: h) simp_all

text \<open>
  Claim C8.  Appending turns to the transcript of a session and reading it back with
  \<open>GET /chat/:session_id\<close> returns the turns that were there followed by exactly the
  appended ones, in the order of insertion and unchanged; this for every store, every session
  and every sequence of turns.  For \<open>POST /chat\<close> itself: after a request that passed
  validation, the read returns the earlier transcript, then the user's message, then what the
  loop appended.
\<close>

theorem append_get_roundtrip:
  "get_chat (foldl (\<lambda>h t. push h sid t) (get_or_create history sid) ts) sid =
     \<lparr>status = 200, json = HistoryBody sid (messages_of history sid @ ts)\<rparr>
   \<and> (message req_body = Some msg \<and> msg \<noteq> [] \<longrightarrow>
      (\<exists>ext. get_chat (fst (post_chat e client history req_body)) (session_of req_body) =
         \<lparr>status = 200,
          json = HistoryBody (session_of req_body)
                   (messages_of history (session_of req_body) @ \<lparr>role = User, content = Plain msg\<rparr> # ext)\<rparr>))"
proof (intro conjI impI)
  have "foldl (\<lambda>h t. push h sid t) (get_or_create history sid) ts sid \<noteq> None"
    by (rule foldl_push_defined) simp
  then show "get_chat (foldl (\<lambda>h t. push h sid t) (get_or_create history sid) ts) sid =
     \<lparr>status = 200, json = HistoryBody sid (messages_of history sid @ ts)\<rparr>"
    by (simp add: get_chat_def foldl_push)
next
  assume m: "message req_body = Some msg \<and> msg \<noteq> []"
  let ?sid = "session_of req_body"
  let ?s0 = "start_state history ?sid msg"
  let ?h = "fst (post_chat e client history req_body)"
  from m have st: "?h = messageHistory (exit_state (agent_loop e client ?sid ?s0))"
    by (simp add: post_chat_store)
  have "messageHistory ?s0 ?sid \<noteq> None"
    by (simp add: start_state_def)
  then have d: "?h ?sid \<noteq> None"
    unfolding st by (rule agent_loop_defined)
  from agent_loop_extends [of e client ?sid ?s0] obtain ext where
    "messages_of ?h ?sid = messages_of (messageHistory ?s0) ?sid @ ext"
    unfolding st ..
  then have "messages_of ?h ?sid = messages_of history ?sid @ \<lparr>role = User, content = Plain msg\<rparr> # ext"
    by (simp add: start_state_def)
  with d show "\<exists>ext. get_chat ?h ?sid =
         \<lparr>status = 200,
          json = HistoryBody ?sid (messages_of history ?sid @ \<lparr>role = User, content = Plain msg\<rparr> # ext)\<rparr>"
    by (auto simp: get_chat_def)
qed

theorem append_get_roundtrip_witness:
  "get_chat (foldl (\<lambda>h t. push h ''s1'' t) (get_or_create Map.empty ''s1'')
      [\<lparr>role = User, content = Plain ''hi''\<rparr>,
       \<lparr>role = Assistant, content = Blocks [Text ''Hello'']\<rparr>]) ''s1'' =
     \<lparr>status = 200,
      json = HistoryBody ''s1''
        [\<lparr>role = User, content = Plain ''hi''\<rparr>,
         \<lparr>role = Assistant, content = Blocks [Text ''Hello'']\<rparr>]\<rparr>
   \<and> message body_hi = Some ''hi''
   \<and> (\<exists>ext. get_chat (fst (post_chat demo_env client_hello Map.empty body_hi)) ''default'' =
         \<lparr>status = 200,
          json = HistoryBody ''default'' (\<lparr>role = User, content = Plain ''hi''\<rparr> # ext)\<rparr>)"
  using append_get_roundtrip [of "''s1''" Map.empty
      "[\<lparr>role = User, content = Plain ''hi''\<rparr>, \<lparr>role = Assistant, content = Blocks [Text ''Hello'']\<rparr>]"
      body_hi "''hi''" demo_env client_hello]
  by (simp add: body_hi_def session_of_def messages_of_def)

text \<open>
  Claim C9.  \<open>DELETE /chat/:session_id\<close> on an absent session answers 404 "Session not
  found" and leaves the store as it was; on an existing session it answers 200 with the
  message "Session <id> cleared" and removes the entry; in both cases a following
  \<open>GET\<close> of that id answers 404 "Session not found".
\<close>

theorem delete_session:
  "(history sid = None \<longrightarrow>
      delete_chat history sid = (history, \<lparr>status = 404, json = ErrorBody ''Session not found''\<rparr>))
   \<and> (history sid \<noteq> None \<longrightarrow>
        delete_chat history sid =
          (history(sid := None), \<lparr>status = 200, json = MessageBody (''Session '' @ sid @ '' cleared'')\<rparr>))
   \<and> get_chat (fst (delete_chat history sid)) sid =
       \<lparr>status = 404, json = ErrorBody ''Session not found''\<rparr>"
  by (simp add: delete_chat_def get_chat_def)

theorem delete_session_witness:
  "(Map.empty :: store) ''s1'' = None
   \<and> snd (delete_chat Map.empty ''s1'') = \<lparr>status = 404, json = ErrorBody ''Session not found''\<rparr>
   \<and> get_chat (fst (delete_chat Map.empty ''s1'')) ''s1'' =
       \<lparr>status = 404, json = ErrorBody ''Session not found''\<rparr>
   \<and> [''s1'' \<mapsto> [\<lparr>role = User, content = Plain ''hi''\<rparr>]] ''s1'' \<noteq> None
   \<and> snd (delete_chat [''s1'' \<mapsto> [\<lparr>role = User, content = Plain ''hi''\<rparr>]] ''s1'') =
       \<lparr>status = 200, json = MessageBody ''Session s1 cleared''\<rparr>
   \<and> get_chat (fst (delete_chat [''s1'' \<mapsto> [\<lparr>role = User, content = Plain ''hi''\<rparr>]] ''s1'')) ''s1'' =
       \<lparr>status = 404, json = ErrorBody ''Session not found''\<rparr>"
  using delete_session [of Map.empty "''s1''"]
    delete_session [of "[''s1'' \<mapsto> [\<lparr>role = User, content = Plain ''hi''\<rparr>]]" "''s1''"]
  by (simp add: delete_chat_def get_chat_def)

section \<open>Facts about the loop\<close>


lemma agent_loop_terminal:
  "iterations s < maxIterations \<Longrightarrow>
   client (create_request (messages_of (messageHistory s) sid)) = Inr r \<Longrightarrow>
   \<not> (stop_reason r = ''tool_use'' \<and> filter is_ToolUse (response_content r) \<noteq> []) \<Longrightarrow>
   agent_loop e client sid s =
     Returned (s\<lparr>iterations := Suc (iterations s),
                 totalUsage := add_usage (totalUsage s) (response_usage r),
                 messageHistory := push (messageHistory s) sid
                   \<lparr>role = Assistant, content = Blocks (response_content r)\<rparr>\<rparr>)
       \<lparr>status = 200,
        json = ChatReply (first_text (response_content r)) sid
                 (add_usage (totalUsage s) (response_usage r)) (Suc (iterations s))\<rparr>"
  by (subst agent_loop.simps) (simp add: loop_body_terminal)

lemma agent_loop_exhausted:
  "\<not> iterations s < maxIterations \<Longrightarrow> agent_loop e client sid s = Exhausted s"
  by (subst agent_loop.simps) simp

lemma first_text_none:
  "filter is_Text bs = [] \<Longrightarrow> first_text bs = []"
  by (induction bs) (auto simp: first_text_def split: if_splits)

lemma first_text_first:
  "filter is_Text pre = [] \<Longrightarrow> first_text (pre @ Text t # post) = t"
  by (induction pre) (auto simp: first_text_def split: if_splits)

lemma add_usage_zero [simp]:
  "add_usage \<lparr>input_tokens = 0, output_tokens = 0\<rparr> u = u"
  by (simp add: add_usage_def)

lemma start_state_simps [simp]:
  "iterations (start_state history sid msg) = 0"
  "totalUsage (start_state history sid msg) = \<lparr>input_tokens = 0, output_tokens = 0\<rparr>"
  "messages_of (messageHistory (start_state history sid msg)) sid
     = messages_of history sid @ [\<lparr>role = User, content = Plain msg\<rparr>]"
  "messageHistory (start_state history sid msg) sid
     = Some (messages_of history sid @ [\<lparr>role = User, content = Plain msg\<rparr>])"
  by (simp_all add: start_state_def)

lemma loop_body_Continue:
  assumes "loop_body e client sid s = Continue s'"
  shows "\<exists>r rs. client (create_request (messages_of (messageHistory s) sid)) = Inr r \<and>
           stop_reason r = ''tool_use'' \<and> filter is_ToolUse (response_content r) \<noteq> [] \<and>
           tool_results e (Suc (iterations s)) 0 (filter is_ToolUse (response_content r)) = Inr rs \<and>
           s' = s\<lparr>iterations := Suc (iterations s),
                  totalUsage := add_usage (totalUsage s) (response_usage r),
                  messageHistory := push (push (messageHistory s) sid
                    \<lparr>role = Assistant, content = Blocks (response_content r)\<rparr>) sid
                    \<lparr>role = User, content = Blocks rs\<rparr>\<rparr>"
  using assms by (auto simp: loop_body_def Let_def split: sum.splits if_splits)

lemma tool_round_results:
  "filter is_ToolUse bs \<noteq> [] \<Longrightarrow> tool_results e i j (filter is_ToolUse bs) = Inr rs \<Longrightarrow>
   tool_round [\<lparr>role = Assistant, content = Blocks bs\<rparr>, \<lparr>role = User, content = Blocks rs\<rparr>]"
  using tool_results_shape [of e i j "filter is_ToolUse bs" rs]
  by (simp add: asks_tools_def answers_def tool_uses_def)

lemma rounds_pairs:
  "rounds e client sid k s = Some s' \<Longrightarrow>
   \<exists>pairs. length pairs = k \<and> list_all tool_round pairs \<and>
     messages_of (messageHistory s') sid = messages_of (messageHistory s) sid @ concat pairs"
proof (induction k arbitrary: s)
  case 0
  then show ?case by simp
next
  case (Suc k)
  from Suc.prems obtain s1 where
    body: "loop_body e client sid s = Continue s1" and rest: "rounds e client sid k s1 = Some s'"
    by (auto split: if_splits step.splits)
  from loop_body_Continue [OF body] obtain r rs where
    "client (create_request (messages_of (messageHistory s) sid)) = Inr r" and
    "stop_reason r = ''tool_use''" and
    nonempty: "filter is_ToolUse (response_content r) \<noteq> []" and
    results: "tool_results e (Suc (iterations s)) 0 (filter is_ToolUse (response_content r)) = Inr rs" and
    s1: "s1 = s\<lparr>iterations := Suc (iterations s),
                totalUsage := add_usage (totalUsage s) (response_usage r),
                messageHistory := push (push (messageHistory s) sid
                  \<lparr>role = Assistant, content = Blocks (response_content r)\<rparr>) sid
                  \<lparr>role = User, content = Blocks rs\<rparr>\<rparr>"
    by (elim exE conjE)
  let ?pair = "[\<lparr>role = Assistant, content = Blocks (response_content r)\<rparr>,
                \<lparr>role = User, content = Blocks rs\<rparr>]"
  have round: "tool_round ?pair"
    using nonempty results by (rule tool_round_results)
  have m1: "messages_of (messageHistory s1) sid = messages_of (messageHistory s) sid @ ?pair"
    by (simp add: s1)
  from Suc.IH [OF rest] obtain pairs where
    "length pairs = k" "list_all tool_round pairs"
    "messages_of (messageHistory s') sid = messages_of (messageHistory s1) sid @ concat pairs"
    by blast
  with round m1 have
    "length (?pair # pairs) = Suc k \<and> list_all tool_round (?pair # pairs) \<and>
     messages_of (messageHistory s') sid = messages_of (messageHistory s) sid @ concat (?pair # pairs)"
    by simp
  then show ?case by blast
qed


lemmas demo_simps =
  loop_body_def Let_def create_request_def start_state_def executeTool_def toLocaleString_def
  demo_env_def demo_date_def demo_usage_def maxIterations_def add_usage_def body_hi_def session_of_def

section \<open>Terminal responses\<close>

text \<open>
  Claim C4.  When the first response of the model has stop reason \<open>end_turn\<close> and the single
  text block "Hello", \<open>POST /chat\<close> answers 200 with the reply "Hello", the usage of that
  one response and \<open>iterations = 1\<close>; the transcript gains the user turn and the assistant
  turn.
\<close>

theorem first_reply_hello:
  assumes "message req_body = Some msg" and "msg \<noteq> []"
    and "client (create_request (messages_of history (session_of req_body)
                   @ [\<lparr>role = User, content = Plain msg\<rparr>])) = Inr r"
    and "stop_reason r = ''end_turn''"
    and "response_content r = [Text ''Hello'']"
  shows "snd (post_chat e client history req_body) =
           \<lparr>status = 200,
            json = ChatReply ''Hello'' (session_of req_body) (response_usage r) 1\<rparr>
         \<and> messages_of (fst (post_chat e client history req_body)) (session_of req_body) =
             messages_of history (session_of req_body)
               @ [\<lparr>role = User, content = Plain msg\<rparr>,
                  \<lparr>role = Assistant, content = Blocks [Text ''Hello'']\<rparr>]"
proof -
  let ?sid = "session_of req_body"
  let ?s0 = "start_state history ?sid msg"
  have "iterations ?s0 < maxIterations"
    by (simp add: maxIterations_def)
  moreover have "client (create_request (messages_of (messageHistory ?s0) ?sid)) = Inr r"
    using assms(3) by simp
  moreover have "\<not> (stop_reason r = ''tool_use'' \<and> filter is_ToolUse (response_content r) \<noteq> [])"
    using assms(4) by simp
  ultimately have "agent_loop e client ?sid ?s0 =
     Returned (?s0\<lparr>iterations := Suc (iterations ?s0),
                 totalUsage := add_usage (totalUsage ?s0) (response_usage r),
                 messageHistory := push (messageHistory ?s0) ?sid
                   \<lparr>role = Assistant, content = Blocks (response_content r)\<rparr>\<rparr>)
       \<lparr>status = 200,
        json = ChatReply (first_text (response_content r)) ?sid
                 (add_usage (totalUsage ?s0) (response_usage r)) (Suc (iterations ?s0))\<rparr>"
    by (rule agent_loop_terminal)
  with assms(1,2,5) show ?thesis
    by (simp add: post_chat_run first_text_def)
qed

theorem first_reply_hello_witness:
  "message body_hi = Some ''hi''
   \<and> client_hello (create_request (messages_of Map.empty (session_of body_hi)
        @ [\<lparr>role = User, content = Plain ''hi''\<rparr>])) =
       Inr \<lparr>response_content = [Text ''Hello''], stop_reason = ''end_turn'',
            response_usage = \<lparr>input_tokens = 12, output_tokens = 3\<rparr>\<rparr>
   \<and> snd (post_chat demo_env client_hello Map.empty body_hi) =
       \<lparr>status = 200,
        json = ChatReply ''Hello'' ''default'' \<lparr>input_tokens = 12, output_tokens = 3\<rparr> 1\<rparr>
   \<and> messages_of (fst (post_chat demo_env client_hello Map.empty body_hi)) ''default'' =
       [\<lparr>role = User, content = Plain ''hi''\<rparr>,
        \<lparr>role = Assistant, content = Blocks [Text ''Hello'']\<rparr>]"
  using first_reply_hello [of body_hi "''hi''" client_hello Map.empty
      "\<lparr>response_content = [Text ''Hello''], stop_reason = ''end_turn'',
        response_usage = \<lparr>input_tokens = 12, output_tokens = 3\<rparr>\<rparr>" demo_env]
  by (simp add: body_hi_def session_of_def client_hello_def demo_usage_def messages_of_def)

text \<open>
  Claim C6.  On a terminal response (any response but one with stop reason \<open>tool_use\<close> and
  at least one tool-use block), at whatever iteration it arrives, the loop appends an assistant
  turn with the full content of the response and the request succeeds with status 200, the
  accumulated usage and the iteration count; the reply is the text of the first text block,
  and the empty string when the response has no text block.  The transcript that stays in the
  store is the one the loop had reached, followed by that assistant turn: the earlier
  transcript, the user turn, the tool rounds so far, and the assistant turn last.
\<close>

theorem terminal_reply:
  assumes "message req_body = Some msg" and "msg \<noteq> []"
    and "rounds e client (session_of req_body) k
           (start_state history (session_of req_body) msg) = Some s"
    and "k < maxIterations"
    and "client (create_request (messages_of (messageHistory s) (session_of req_body))) = Inr r"
    and "\<not> (stop_reason r = ''tool_use'' \<and> filter is_ToolUse (response_content r) \<noteq> [])"
  shows "(\<exists>answer. post_chat e client history req_body =
           (push (messageHistory s) (session_of req_body)
              \<lparr>role = Assistant, content = Blocks (response_content r)\<rparr>,
            \<lparr>status = 200,
             json = ChatReply answer (session_of req_body)
                      (add_usage (totalUsage s) (response_usage r)) (Suc k)\<rparr>)
         \<and> (filter is_Text (response_content r) = [] \<longrightarrow> answer = [])
         \<and> (\<forall>pre t post. response_content r = pre @ Text t # post \<and> filter is_Text pre = []
              \<longrightarrow> answer = t))
       \<and> messages_of (fst (post_chat e client history req_body)) (session_of req_body) =
           messages_of (messageHistory s) (session_of req_body)
             @ [\<lparr>role = Assistant, content = Blocks (response_content r)\<rparr>]
       \<and> (\<exists>pairs. length pairs = k \<and> list_all tool_round pairs \<and>
             messages_of (fst (post_chat e client history req_body)) (session_of req_body) =
               messages_of history (session_of req_body)
                 @ [\<lparr>role = User, content = Plain msg\<rparr>] @ concat pairs
                 @ [\<lparr>role = Assistant, content = Blocks (response_content r)\<rparr>])
       \<and> fst (post_chat e client history req_body) (session_of req_body) =
           Some (messages_of (messageHistory s) (session_of req_body)
             @ [\<lparr>role = Assistant, content = Blocks (response_content r)\<rparr>])"
proof -
  let ?sid = "session_of req_body"
  let ?s0 = "start_state history ?sid msg"
  let ?a = "\<lparr>role = Assistant, content = Blocks (response_content r)\<rparr>"
  from rounds_iterations [OF assms(3)] have it: "iterations s = k" by simp
  with assms(4) have "iterations s < maxIterations" by simp
  from agent_loop_terminal [where client = client and sid = ?sid and e = e, OF this assms(5,6)]
    agent_loop_rounds [OF assms(3)]
  have "agent_loop e client ?sid ?s0 =
     Returned (s\<lparr>iterations := Suc (iterations s),
                 totalUsage := add_usage (totalUsage s) (response_usage r),
                 messageHistory := push (messageHistory s) ?sid ?a\<rparr>)
       \<lparr>status = 200,
        json = ChatReply (first_text (response_content r)) ?sid
                 (add_usage (totalUsage s) (response_usage r)) (Suc (iterations s))\<rparr>"
    by simp
  with assms(1,2) it have post: "post_chat e client history req_body =
           (push (messageHistory s) ?sid ?a,
            \<lparr>status = 200,
             json = ChatReply (first_text (response_content r)) ?sid
                      (add_usage (totalUsage s) (response_usage r)) (Suc k)\<rparr>)"
    by (simp add: post_chat_run)
  moreover have "filter is_Text (response_content r) = [] \<longrightarrow> first_text (response_content r) = []"
    by (simp add: first_text_none)
  moreover have "\<forall>pre t post. response_content r = pre @ Text t # post \<and> filter is_Text pre = []
              \<longrightarrow> first_text (response_content r) = t"
    by (auto simp: first_text_first)
  ultimately have reply: "\<exists>answer. post_chat e client history req_body =
           (push (messageHistory s) ?sid ?a,
            \<lparr>status = 200,
             json = ChatReply answer ?sid (add_usage (totalUsage s) (response_usage r)) (Suc k)\<rparr>)
         \<and> (filter is_Text (response_content r) = [] \<longrightarrow> answer = [])
         \<and> (\<forall>pre t post. response_content r = pre @ Text t # post \<and> filter is_Text pre = []
              \<longrightarrow> answer = t)"
    by blast
  from post have appended: "messages_of (fst (post_chat e client history req_body)) ?sid =
           messages_of (messageHistory s) ?sid @ [?a]"
    by simp
  from post have entry: "fst (post_chat e client history req_body) ?sid =
           Some (messages_of (messageHistory s) ?sid @ [?a])"
    by simp
  from rounds_pairs [OF assms(3)] obtain pairs where
    "length pairs = k" "list_all tool_round pairs"
    "messages_of (messageHistory s) ?sid = messages_of (messageHistory ?s0) ?sid @ concat pairs"
    by blast
  with appended have "\<exists>pairs. length pairs = k \<and> list_all tool_round pairs \<and>
             messages_of (fst (post_chat e client history req_body)) ?sid =
               messages_of history ?sid @ [\<lparr>role = User, content = Plain msg\<rparr>] @ concat pairs @ [?a]"
    by auto
  with reply appended entry show ?thesis
    by blast
qed

theorem terminal_reply_witness:
  "snd (post_chat demo_env client_once Map.empty body_hi) =
     \<lparr>status = 200,
      json = ChatReply ''It is now noon'' ''default'' \<lparr>input_tokens = 24, output_tokens = 6\<rparr> 2\<rparr>
   \<and> messages_of (fst (post_chat demo_env client_once Map.empty body_hi)) ''default'' =
       [\<lparr>role = User, content = Plain ''hi''\<rparr>,
        \<lparr>role = Assistant,
         content = Blocks [Text ''Let me check.'',
                           ToolUse ''t1'' ''get_current_time'' (JObj []),
                           ToolUse ''t2'' ''get_weather'' JNull]\<rparr>,
        \<lparr>role = User,
         content = Blocks
           [ToolResult ''t1'' (demo_stringify (JObj
              [(''iso'', JStr ''2025-01-01T12:00:00.000Z''),
               (''formatted'', JStr ''1/1/2025, 12:00:00 PM''),
               (''timezone'', JStr ''UTC''),
               (''unix_timestamp'', JNum 1735732800)])),
            ToolResult ''t2'' (demo_stringify (JObj
              [(''error'', JStr ''Unknown tool: get_weather'')]))]\<rparr>,
        \<lparr>role = Assistant, content = Blocks [Text ''It is now noon'']\<rparr>]
   \<and> snd (post_chat demo_env client_silent Map.empty body_hi) =
     \<lparr>status = 200,
      json = ChatReply [] ''default'' \<lparr>input_tokens = 12, output_tokens = 3\<rparr> 1\<rparr>
   \<and> messages_of (fst (post_chat demo_env client_silent Map.empty body_hi)) ''default'' =
       [\<lparr>role = User, content = Plain ''hi''\<rparr>, \<lparr>role = Assistant, content = Blocks []\<rparr>]"
proof -
  let ?s0 = "start_state Map.empty ''default'' ''hi''"
  let ?noon = "\<lparr>response_content = [Text ''It is now noon''], stop_reason = ''end_turn'',
                response_usage = demo_usage\<rparr>"
  let ?none = "\<lparr>response_content = [], stop_reason = ''end_turn'', response_usage = demo_usage\<rparr>"
  let ?round = "[\<lparr>role = User, content = Plain ''hi''\<rparr>,
        \<lparr>role = Assistant,
         content = Blocks [Text ''Let me check.'',
                           ToolUse ''t1'' ''get_current_time'' (JObj []),
                           ToolUse ''t2'' ''get_weather'' JNull]\<rparr>,
        \<lparr>role = User,
         content = Blocks
           [ToolResult ''t1'' (demo_stringify (JObj
              [(''iso'', JStr ''2025-01-01T12:00:00.000Z''),
               (''formatted'', JStr ''1/1/2025, 12:00:00 PM''),
               (''timezone'', JStr ''UTC''),
               (''unix_timestamp'', JNum 1735732800)])),
            ToolResult ''t2'' (demo_stringify (JObj
              [(''error'', JStr ''Unknown tool: get_weather'')]))]\<rparr>]"
  have body: "message body_hi = Some ''hi''" "session_of body_hi = ''default''"
    by (simp_all add: body_hi_def session_of_def)
  have "\<exists>s. rounds demo_env client_once ''default'' 1 ?s0 = Some s \<and>
          client_once (create_request (messages_of (messageHistory s) ''default'')) = Inr ?noon \<and>
          totalUsage s = demo_usage \<and>
          messages_of (messageHistory s) ''default'' = ?round"
    by (simp add: demo_simps client_once_def del: demo_stringify.simps)
  then obtain s where
    s: "rounds demo_env client_once ''default'' 1 ?s0 = Some s" and
    c: "client_once (create_request (messages_of (messageHistory s) ''default'')) = Inr ?noon" and
    u: "totalUsage s = demo_usage" and
    m: "messages_of (messageHistory s) ''default'' = ?round"
    by blast
  from terminal_reply [of body_hi "''hi''" demo_env client_once 1 Map.empty s ?noon] body s c
  obtain answer where
    p: "post_chat demo_env client_once Map.empty body_hi =
       (push (messageHistory s) ''default'' \<lparr>role = Assistant, content = Blocks [Text ''It is now noon'']\<rparr>,
        \<lparr>status = 200, json = ChatReply answer ''default'' (add_usage (totalUsage s) demo_usage) 2\<rparr>)"
    and q: "\<forall>pre t post. [Text ''It is now noon''] = pre @ Text t # post \<and> filter is_Text pre = []
          \<longrightarrow> answer = t"
    and t: "messages_of (fst (post_chat demo_env client_once Map.empty body_hi)) ''default'' =
          messages_of (messageHistory s) ''default''
            @ [\<lparr>role = Assistant, content = Blocks [Text ''It is now noon'']\<rparr>]"
    by (auto simp: maxIterations_def)
  from q have "[Text ''It is now noon''] = [] @ Text ''It is now noon'' # [] \<and> filter is_Text [] = []
          \<longrightarrow> answer = ''It is now noon''"
    by blast
  then have "answer = ''It is now noon''"
    by simp
  with p have first: "snd (post_chat demo_env client_once Map.empty body_hi) =
     \<lparr>status = 200,
      json = ChatReply ''It is now noon'' ''default'' \<lparr>input_tokens = 24, output_tokens = 6\<rparr> 2\<rparr>"
    using u by (simp add: add_usage_def demo_usage_def)
  from t m have first_transcript:
    "messages_of (fst (post_chat demo_env client_once Map.empty body_hi)) ''default'' =
       ?round @ [\<lparr>role = Assistant, content = Blocks [Text ''It is now noon'']\<rparr>]"
    by simp
  have c0: "client_silent (create_request (messages_of (messageHistory ?s0) ''default'')) = Inr ?none"
    by (simp add: client_silent_def)
  from terminal_reply [of body_hi "''hi''" demo_env client_silent 0 Map.empty ?s0 ?none] body c0
  have "snd (post_chat demo_env client_silent Map.empty body_hi) =
     \<lparr>status = 200,
      json = ChatReply [] ''default'' \<lparr>input_tokens = 12, output_tokens = 3\<rparr> 1\<rparr>
    \<and> messages_of (fst (post_chat demo_env client_silent Map.empty body_hi)) ''default'' =
       [\<lparr>role = User, content = Plain ''hi''\<rparr>, \<lparr>role = Assistant, content = Blocks []\<rparr>]"
    by (auto simp: maxIterations_def demo_usage_def)
  with first first_transcript show ?thesis
    by (simp del: demo_stringify.simps)
qed

section \<open>Failure of the model call\<close>



section \<open>Token usage\<close>

lemma usage_le_refl [simp]: "usage_le u u"
  by (simp add: usage_le_def)

lemma usage_le_trans: "usage_le u v \<Longrightarrow> usage_le v w \<Longrightarrow> usage_le u w"
  by (simp add: usage_le_def)

lemma usage_le_add [simp]: "usage_le u (add_usage u v)"
  by (simp add: usage_le_def add_usage_def)

lemma loop_body_usage:
  "usage_le (totalUsage s) (totalUsage (step_state (loop_body e client sid s)))"
  by (auto simp: loop_body_def Let_def split: sum.splits)

lemma loop_body_adds:
  "client (create_request (messages_of (messageHistory s) sid)) = Inr r \<Longrightarrow>
   totalUsage (step_state (loop_body e client sid s)) = add_usage (totalUsage s) (response_usage r)"
  by (auto simp: loop_body_def Let_def split: sum.splits)

lemma rounds_usage:
  "rounds e client sid k s = Some s' \<Longrightarrow> usage_le (totalUsage s) (totalUsage s')"
proof (induction k arbitrary: s)
  case 0
  then show ?case by simp
next
  case (Suc k)
  from Suc.prems obtain s1 where
    body: "loop_body e client sid s = Continue s1" and rest: "rounds e client sid k s1 = Some s'"
    by (auto split: if_splits step.splits)
  from loop_body_usage [of s e client sid] body have "usage_le (totalUsage s) (totalUsage s1)"
    by simp
  with Suc.IH [OF rest] show ?case
    by (blast intro: usage_le_trans)
qed

lemma agent_loop_usage:
  "usage_le (totalUsage s) (totalUsage (exit_state (agent_loop e client sid s)))"
proof (rule agent_loop_invariant [where P = "\<lambda>s' :: loop_state. usage_le (totalUsage s) (totalUsage s')"])
  fix s' :: loop_state
  assume "usage_le (totalUsage s) (totalUsage s')"
  with loop_body_usage [of s' e client sid]
  show "usage_le (totalUsage s) (totalUsage (step_state (loop_body e client sid s')))"
    by (blast intro: usage_le_trans)
next
  show "usage_le (totalUsage s) (totalUsage s)" by simp
qed

lemma loop_body_adds_input:
  "client (create_request (messages_of (messageHistory s) sid)) = Inr r \<Longrightarrow>
   input_tokens (totalUsage (step_state (loop_body e client sid s)))
     = input_tokens (totalUsage s) + input_tokens (response_usage r)"
  by (auto simp: loop_body_def Let_def add_usage_def split: sum.splits)

lemma loop_body_adds_output:
  "client (create_request (messages_of (messageHistory s) sid)) = Inr r \<Longrightarrow>
   output_tokens (totalUsage (step_state (loop_body e client sid s)))
     = output_tokens (totalUsage s) + output_tokens (response_usage r)"
  by (auto simp: loop_body_def Let_def add_usage_def split: sum.splits)

lemma loop_body_keeps_usage:
  "client (create_request (messages_of (messageHistory s) sid)) = Inl x \<Longrightarrow>
   totalUsage (step_state (loop_body e client sid s)) = totalUsage s"
  by (simp add: loop_body_client_fails)

lemma rounds_sum:
  "rounds e client sid k s = Some s' \<Longrightarrow>
   length (replies e client sid k s) = k \<and>
   input_tokens (totalUsage s') =
     input_tokens (totalUsage s)
       + sum_list (map (\<lambda>r. input_tokens (response_usage r)) (replies e client sid k s)) \<and>
   output_tokens (totalUsage s') =
     output_tokens (totalUsage s)
       + sum_list (map (\<lambda>r. output_tokens (response_usage r)) (replies e client sid k s))"
proof (induction k arbitrary: s)
  case 0
  then show ?case by simp
next
  case (Suc k)
  from Suc.prems obtain s1 where
    body: "loop_body e client sid s = Continue s1" and rest: "rounds e client sid k s1 = Some s'"
    by (auto split: if_splits step.splits)
  from loop_body_Continue [OF body] obtain r where
    r: "client (create_request (messages_of (messageHistory s) sid)) = Inr r"
    by blast
  from loop_body_adds_input [where client = client and sid = sid and e = e, OF r]
    loop_body_adds_output [where client = client and sid = sid and e = e, OF r] body have
    "input_tokens (totalUsage s1) = input_tokens (totalUsage s) + input_tokens (response_usage r)"
    "output_tokens (totalUsage s1) = output_tokens (totalUsage s) + output_tokens (response_usage r)"
    by simp_all
  with Suc.IH [OF rest] r body show ?case
    by simp
qed

text \<open>
  Claim C7.  Within one invocation of the loop the accumulated usage never decreases, in
  either counter.  A pass through the body in which the model answers adds exactly that
  response's \<open>input_tokens\<close> and \<open>output_tokens\<close> to the two counters, whatever they held;
  a pass in which the call fails leaves them as they were; nothing is subtracted.  After
  \<open>k\<close> tool rounds each counter is what it was plus the sum over the \<open>k\<close> responses
  received, and so the whole loop never ends below where it started.  The total starts at
  zero for each request: a request that ends with a terminal response after \<open>n\<close> tool rounds
  reports the sum of the usage of the \<open>n + 1\<close> responses of this request, whatever the store
  holds from earlier requests.
\<close>

theorem usage_accumulates:
  "usage_le (totalUsage s) (totalUsage (step_state (loop_body e client sid s)))
   \<and> (client (create_request (messages_of (messageHistory s) sid)) = Inr r \<longrightarrow>
        totalUsage (step_state (loop_body e client sid s))
          = add_usage (totalUsage s) (response_usage r))
   \<and> (rounds e client sid k s = Some s' \<longrightarrow> usage_le (totalUsage s) (totalUsage s'))
   \<and> usage_le (totalUsage s) (totalUsage (exit_state (agent_loop e client sid s)))
   \<and> (message req_body = Some msg \<and> msg \<noteq> [] \<and>
        client (create_request (messages_of history (session_of req_body)
                  @ [\<lparr>role = User, content = Plain msg\<rparr>])) = Inr r \<and>
        \<not> (stop_reason r = ''tool_use'' \<and> filter is_ToolUse (response_content r) \<noteq> []) \<longrightarrow>
        reply_usage (json (snd (post_chat e client history req_body))) = response_usage r)
   \<and> (client (create_request (messages_of (messageHistory s) sid)) = Inr r \<longrightarrow>
        input_tokens (totalUsage (step_state (loop_body e client sid s)))
          = input_tokens (totalUsage s) + input_tokens (response_usage r) \<and>
        output_tokens (totalUsage (step_state (loop_body e client sid s)))
          = output_tokens (totalUsage s) + output_tokens (response_usage r))
   \<and> (client (create_request (messages_of (messageHistory s) sid)) = Inl x \<longrightarrow>
        totalUsage (step_state (loop_body e client sid s)) = totalUsage s)
   \<and> (rounds e client sid k s = Some s' \<longrightarrow>
        length (replies e client sid k s) = k \<and>
        input_tokens (totalUsage s') =
          input_tokens (totalUsage s)
            + sum_list (map (\<lambda>r. input_tokens (response_usage r)) (replies e client sid k s)) \<and>
        output_tokens (totalUsage s') =
          output_tokens (totalUsage s)
            + sum_list (map (\<lambda>r. output_tokens (response_usage r)) (replies e client sid k s)))
   \<and> (message req_body = Some msg \<and> msg \<noteq> [] \<and>
        rounds e client (session_of req_body) n
          (start_state history (session_of req_body) msg) = Some s1 \<and>
        n < maxIterations \<and>
        client (create_request (messages_of (messageHistory s1) (session_of req_body))) = Inr r1 \<and>
        \<not> (stop_reason r1 = ''tool_use'' \<and> filter is_ToolUse (response_content r1) \<noteq> []) \<longrightarrow>
        reply_usage (json (snd (post_chat e client history req_body))) =
          \<lparr>input_tokens =
             sum_list (map (\<lambda>r. input_tokens (response_usage r))
               (replies e client (session_of req_body) n
                  (start_state history (session_of req_body) msg)))
             + input_tokens (response_usage r1),
           output_tokens =
             sum_list (map (\<lambda>r. output_tokens (response_usage r))
               (replies e client (session_of req_body) n
                  (start_state history (session_of req_body) msg)))
             + output_tokens (response_usage r1)\<rparr>)"
proof (intro conjI impI)
  show "usage_le (totalUsage s) (totalUsage (step_state (loop_body e client sid s)))"
    by (rule loop_body_usage)
  show "usage_le (totalUsage s) (totalUsage (exit_state (agent_loop e client sid s)))"
    by (rule agent_loop_usage)
next
  assume "client (create_request (messages_of (messageHistory s) sid)) = Inr r"
  then show "totalUsage (step_state (loop_body e client sid s))
          = add_usage (totalUsage s) (response_usage r)"
    by (rule loop_body_adds)
next
  assume "rounds e client sid k s = Some s'"
  then show "usage_le (totalUsage s) (totalUsage s')"
    by (rule rounds_usage)
next
  let ?sid = "session_of req_body"
  let ?s0 = "start_state history ?sid msg"
  assume a: "message req_body = Some msg \<and> msg \<noteq> [] \<and>
        client (create_request (messages_of history (session_of req_body)
                  @ [\<lparr>role = User, content = Plain msg\<rparr>])) = Inr r \<and>
        \<not> (stop_reason r = ''tool_use'' \<and> filter is_ToolUse (response_content r) \<noteq> [])"
  have "iterations ?s0 < maxIterations"
    by (simp add: maxIterations_def)
  moreover from a have "client (create_request (messages_of (messageHistory ?s0) ?sid)) = Inr r"
    by simp
  moreover from a have
    "\<not> (stop_reason r = ''tool_use'' \<and> filter is_ToolUse (response_content r) \<noteq> [])"
    by simp
  ultimately have "agent_loop e client ?sid ?s0 =
     Returned (?s0\<lparr>iterations := Suc (iterations ?s0),
                 totalUsage := add_usage (totalUsage ?s0) (response_usage r),
                 messageHistory := push (messageHistory ?s0) ?sid
                   \<lparr>role = Assistant, content = Blocks (response_content r)\<rparr>\<rparr>)
       \<lparr>status = 200,
        json = ChatReply (first_text (response_content r)) ?sid
                 (add_usage (totalUsage ?s0) (response_usage r)) (Suc (iterations ?s0))\<rparr>"
    by (rule agent_loop_terminal)
  with a show "reply_usage (json (snd (post_chat e client history req_body))) = response_usage r"
    by (simp add: post_chat_run)
next
  assume r: "client (create_request (messages_of (messageHistory s) sid)) = Inr r"
  then show "input_tokens (totalUsage (step_state (loop_body e client sid s)))
          = input_tokens (totalUsage s) + input_tokens (response_usage r)"
    by (rule loop_body_adds_input)
  from r show "output_tokens (totalUsage (step_state (loop_body e client sid s)))
          = output_tokens (totalUsage s) + output_tokens (response_usage r)"
    by (rule loop_body_adds_output)
next
  assume "client (create_request (messages_of (messageHistory s) sid)) = Inl x"
  then show "totalUsage (step_state (loop_body e client sid s)) = totalUsage s"
    by (rule loop_body_keeps_usage)
next
  assume k: "rounds e client sid k s = Some s'"
  from rounds_sum [OF k] show "length (replies e client sid k s) = k"
    by simp
  from rounds_sum [OF k] show "input_tokens (totalUsage s') =
          input_tokens (totalUsage s)
            + sum_list (map (\<lambda>r. input_tokens (response_usage r)) (replies e client sid k s))"
    by simp
  from rounds_sum [OF k] show "output_tokens (totalUsage s') =
          output_tokens (totalUsage s)
            + sum_list (map (\<lambda>r. output_tokens (response_usage r)) (replies e client sid k s))"
    by simp
next
  let ?sid = "session_of req_body"
  let ?s0 = "start_state history ?sid msg"
  assume a: "message req_body = Some msg \<and> msg \<noteq> [] \<and>
        rounds e client ?sid n ?s0 = Some s1 \<and> n < maxIterations \<and>
        client (create_request (messages_of (messageHistory s1) ?sid)) = Inr r1 \<and>
        \<not> (stop_reason r1 = ''tool_use'' \<and> filter is_ToolUse (response_content r1) \<noteq> [])"
  then have n: "rounds e client ?sid n ?s0 = Some s1"
    by simp
  from rounds_iterations [OF n] a have "iterations s1 < maxIterations"
    by simp
  moreover from a have "client (create_request (messages_of (messageHistory s1) ?sid)) = Inr r1"
    by simp
  moreover from a have
    "\<not> (stop_reason r1 = ''tool_use'' \<and> filter is_ToolUse (response_content r1) \<noteq> [])"
    by simp
  ultimately have "agent_loop e client ?sid s1 =
     Returned (s1\<lparr>iterations := Suc (iterations s1),
                 totalUsage := add_usage (totalUsage s1) (response_usage r1),
                 messageHistory := push (messageHistory s1) ?sid
                   \<lparr>role = Assistant, content = Blocks (response_content r1)\<rparr>\<rparr>)
       \<lparr>status = 200,
        json = ChatReply (first_text (response_content r1)) ?sid
                 (add_usage (totalUsage s1) (response_usage r1)) (Suc (iterations s1))\<rparr>"
    by (rule agent_loop_terminal)
  with agent_loop_rounds [OF n] a have
    "reply_usage (json (snd (post_chat e client history req_body)))
       = add_usage (totalUsage s1) (response_usage r1)"
    by (simp add: post_chat_run)
  with rounds_sum [OF n]
  show "reply_usage (json (snd (post_chat e client history req_body))) =
          \<lparr>input_tokens =
             sum_list (map (\<lambda>r. input_tokens (response_usage r)) (replies e client ?sid n ?s0))
             + input_tokens (response_usage r1),
           output_tokens =
             sum_list (map (\<lambda>r. output_tokens (response_usage r)) (replies e client ?sid n ?s0))
             + output_tokens (response_usage r1)\<rparr>"
    by (simp add: add_usage_def)
qed

theorem usage_accumulates_witness:
  "totalUsage (step_state (loop_body demo_env client_hello ''default''
       \<lparr>messageHistory = [''default'' \<mapsto> [\<lparr>role = User, content = Plain ''hi''\<rparr>]],
        totalUsage = \<lparr>input_tokens = 100, output_tokens = 50\<rparr>,
        iterations = 3\<rparr>))
     = \<lparr>input_tokens = 112, output_tokens = 53\<rparr>
   \<and> totalUsage (step_state (loop_body demo_env client_down ''default''
       \<lparr>messageHistory = [''default'' \<mapsto> [\<lparr>role = User, content = Plain ''hi''\<rparr>]],
        totalUsage = \<lparr>input_tokens = 100, output_tokens = 50\<rparr>,
        iterations = 3\<rparr>))
     = \<lparr>input_tokens = 100, output_tokens = 50\<rparr>
   \<and> usage_le \<lparr>input_tokens = 0, output_tokens = 0\<rparr>
       (totalUsage (exit_state (agent_loop demo_env client_two ''default''
          (start_state Map.empty ''default'' ''hi''))))
   \<and> reply_usage (json (snd (post_chat demo_env client_two Map.empty body_hi)))
       = \<lparr>input_tokens = 42, output_tokens = 23\<rparr>
   \<and> reply_usage (json (snd (post_chat demo_env client_hello
         [''default'' \<mapsto> [\<lparr>role = User, content = Plain ''earlier''\<rparr>,
                          \<lparr>role = Assistant, content = Blocks [Text ''Hello'']\<rparr>]] body_hi)))
       = \<lparr>input_tokens = 12, output_tokens = 3\<rparr>"
proof -
  let ?s0 = "start_state Map.empty ''default'' ''hi''"
  let ?mid = "\<lparr>messageHistory = [''default'' \<mapsto> [\<lparr>role = User, content = Plain ''hi''\<rparr>]],
        totalUsage = \<lparr>input_tokens = 100, output_tokens = 50\<rparr>,
        iterations = 3\<rparr>"
  let ?hello = "\<lparr>response_content = [Text ''Hello''], stop_reason = ''end_turn'',
          response_usage = demo_usage\<rparr>"
  let ?noon = "\<lparr>response_content = [Text ''It is now noon''], stop_reason = ''end_turn'',
             response_usage = usage_30_20\<rparr>"
  let ?h = "[''default'' \<mapsto> [\<lparr>role = User, content = Plain ''earlier''\<rparr>,
                          \<lparr>role = Assistant, content = Blocks [Text ''Hello'']\<rparr>]]"
  have body: "message body_hi = Some ''hi''" "session_of body_hi = ''default''"
    by (simp_all add: body_hi_def session_of_def)
  have "client_hello (create_request (messages_of (messageHistory ?mid) ''default'')) = Inr ?hello"
    by (simp add: client_hello_def)
  with usage_accumulates [where s = ?mid and e = demo_env and client = client_hello
      and sid = "''default''" and r = ?hello]
  have step: "totalUsage (step_state (loop_body demo_env client_hello ''default'' ?mid))
     = \<lparr>input_tokens = 112, output_tokens = 53\<rparr>"
    by (simp add: add_usage_def demo_usage_def)
  have "client_down (create_request (messages_of (messageHistory ?mid) ''default''))
      = Inl (APIError ''overloaded'')"
    by (simp add: client_down_def)
  with usage_accumulates [where s = ?mid and e = demo_env and client = client_down
      and sid = "''default''" and x = "APIError ''overloaded''"]
  have kept: "totalUsage (step_state (loop_body demo_env client_down ''default'' ?mid))
     = \<lparr>input_tokens = 100, output_tokens = 50\<rparr>"
    by simp
  have "\<exists>s. rounds demo_env client_two ''default'' 1 ?s0 = Some s \<and>
          client_two (create_request (messages_of (messageHistory s) ''default'')) = Inr ?noon \<and>
          replies demo_env client_two ''default'' 1 ?s0 =
            [\<lparr>response_content = [ToolUse ''t1'' ''get_current_time'' (JObj [])],
              stop_reason = ''tool_use'', response_usage = demo_usage\<rparr>]"
    by (simp add: demo_simps client_two_def)
  then obtain s where
    s: "rounds demo_env client_two ''default'' 1 ?s0 = Some s" and
    c: "client_two (create_request (messages_of (messageHistory s) ''default'')) = Inr ?noon" and
    rs: "replies demo_env client_two ''default'' 1 ?s0 =
            [\<lparr>response_content = [ToolUse ''t1'' ''get_current_time'' (JObj [])],
              stop_reason = ''tool_use'', response_usage = demo_usage\<rparr>]"
    by blast
  from usage_accumulates [where s = ?s0 and e = demo_env and client = client_two
      and sid = "''default''" and req_body = body_hi and msg = "''hi''" and history = Map.empty
      and n = 1 and ?s1.0 = s and ?r1.0 = ?noon] body s c rs
  have two: "usage_le \<lparr>input_tokens = 0, output_tokens = 0\<rparr>
       (totalUsage (exit_state (agent_loop demo_env client_two ''default'' ?s0)))
     \<and> reply_usage (json (snd (post_chat demo_env client_two Map.empty body_hi)))
       = \<lparr>input_tokens = 42, output_tokens = 23\<rparr>"
    by (simp add: maxIterations_def demo_usage_def usage_30_20_def)
  have "client_hello (create_request (messages_of ?h ''default''
      @ [\<lparr>role = User, content = Plain ''hi''\<rparr>])) = Inr ?hello"
    by (simp add: client_hello_def)
  with body usage_accumulates [where e = demo_env and client = client_hello
      and req_body = body_hi and msg = "''hi''" and history = ?h and r = ?hello]
  have fresh: "reply_usage (json (snd (post_chat demo_env client_hello ?h body_hi)))
       = \<lparr>input_tokens = 12, output_tokens = 3\<rparr>"
    by (simp add: demo_usage_def)
  from step kept two fresh show ?thesis
    by blast
qed

section \<open>Tool execution\<close>

text \<open>
  Claim C1, as it is written, asks \<open>executeTool\<close> to return for every input, an absent input
  object included.  It does not: the time tool reads \<open>toolInput.timezone\<close> before its
  \<open>try\<close>, so an \<open>undefined\<close> or \<open>null\<close> input raises a TypeError; so does an object
  input whose \<open>timezone\<close> has no string conversion, from the template literal in the
  \<open>catch\<close>.  A pass of the loop that meets such a tool call ends with that exception, the
  assistant turn already pushed.
\<close>

theorem absent_input_raises:
  "executeTool demo_env demo_date ''get_current_time'' JUndefined = Inl TypeError
   \<and> executeTool demo_env demo_date ''get_current_time'' JNull = Inl TypeError
   \<and> executeTool demo_env demo_date ''get_current_time''
         (JObj [(''timezone'', JObj [(''toString'', JNull)])]) = Inl TypeError
   \<and> loop_body demo_env client_null ''default'' (start_state Map.empty ''default'' ''hi'') =
       Throw \<lparr>messageHistory =
                [''default'' \<mapsto>
                   [\<lparr>role = User, content = Plain ''hi''\<rparr>,
                    \<lparr>role = Assistant,
                     content = Blocks [ToolUse ''t1'' ''get_current_time'' JNull]\<rparr>]],
              totalUsage = \<lparr>input_tokens = 12, output_tokens = 3\<rparr>,
              iterations = 1\<rparr>
         TypeError"
  by (simp add: demo_simps client_null_def push_def get_or_create_def messages_of_def)

text \<open>
  Claim C1, amended.  \<open>executeTool\<close> returns a structured value and does not raise for
  every unknown tool name with every input (the value is \<open>{ error: "Unknown tool: <name>" }\<close>),
  and for the time tool with every input that is neither \<open>undefined\<close> nor \<open>null\<close> and whose
  \<open>timezone\<close> is falsy or has a string conversion; every input of the shape that the
  tool's input schema declares is such an input.  When all tool calls of a response with stop
  reason \<open>tool_use\<close> are of this kind, the pass through the loop wraps each returned value,
  serialised, into a tool result with the id of its call, pushes the assistant turn and the
  turn of results, and continues.
\<close>

theorem executeTool_returns:
  "(toolName \<noteq> ''get_current_time'' \<longrightarrow>
      executeTool e now toolName toolInput =
        Inr (JObj [(''error'', JStr (''Unknown tool: '' @ toolName))]))
   \<and> (input_accepted e toolInput \<longrightarrow>
        (\<exists>v. executeTool e now ''get_current_time'' toolInput = Inr v))
   \<and> (conforms_schema toolInput \<longrightarrow> input_accepted e toolInput)
   \<and> (client (create_request (messages_of (messageHistory s) sid)) = Inr r \<and>
        stop_reason r = ''tool_use'' \<and> filter is_ToolUse (response_content r) \<noteq> [] \<and>
        list_all (tool_call_ok e) (filter is_ToolUse (response_content r)) \<longrightarrow>
        (\<exists>rs. loop_body e client sid s =
                Continue (s\<lparr>iterations := Suc (iterations s),
                            totalUsage := add_usage (totalUsage s) (response_usage r),
                            messageHistory := push (push (messageHistory s) sid
                              \<lparr>role = Assistant, content = Blocks (response_content r)\<rparr>) sid
                              \<lparr>role = User, content = Blocks rs\<rparr>\<rparr>) \<and>
              length rs = length (filter is_ToolUse (response_content r)) \<and>
              (\<forall>k < length rs. \<exists>v.
                 executeTool e (clock e (Suc (iterations s)) k)
                   (tu_name (filter is_ToolUse (response_content r) ! k))
                   (tu_input (filter is_ToolUse (response_content r) ! k)) = Inr v \<and>
                 rs ! k = ToolResult (tu_id (filter is_ToolUse (response_content r) ! k))
                            (json_stringify e v))))"
proof (intro conjI impI)
  assume "toolName \<noteq> ''get_current_time''"
  then show "executeTool e now toolName toolInput =
        Inr (JObj [(''error'', JStr (''Unknown tool: '' @ toolName))])"
    by (rule executeTool_unknown)
next
  assume "input_accepted e toolInput"
  then show "\<exists>v. executeTool e now ''get_current_time'' toolInput = Inr v"
    by (simp add: executeTool_accepted)
next
  assume "conforms_schema toolInput"
  then show "input_accepted e toolInput"
    by (rule conforms_accepted)
next
  let ?bs = "filter is_ToolUse (response_content r)"
  assume a: "client (create_request (messages_of (messageHistory s) sid)) = Inr r \<and>
        stop_reason r = ''tool_use'' \<and> ?bs \<noteq> [] \<and> list_all (tool_call_ok e) ?bs"
  then obtain rs where rs: "tool_results e (Suc (iterations s)) 0 ?bs = Inr rs"
    using tool_results_ok [of e ?bs "Suc (iterations s)" 0] by blast
  from a rs have "loop_body e client sid s =
                Continue (s\<lparr>iterations := Suc (iterations s),
                            totalUsage := add_usage (totalUsage s) (response_usage r),
                            messageHistory := push (push (messageHistory s) sid
                              \<lparr>role = Assistant, content = Blocks (response_content r)\<rparr>) sid
                              \<lparr>role = User, content = Blocks rs\<rparr>\<rparr>)"
    by (simp add: loop_body_tools)
  moreover from tool_results_shape [OF rs] have len: "length rs = length ?bs"
    by simp
  moreover have "\<forall>k < length rs. \<exists>v.
                 executeTool e (clock e (Suc (iterations s)) k) (tu_name (?bs ! k))
                   (tu_input (?bs ! k)) = Inr v \<and>
                 rs ! k = ToolResult (tu_id (?bs ! k)) (json_stringify e v)"
    using tool_results_content [OF rs] len by simp
  ultimately show "\<exists>rs. loop_body e client sid s =
                Continue (s\<lparr>iterations := Suc (iterations s),
                            totalUsage := add_usage (totalUsage s) (response_usage r),
                            messageHistory := push (push (messageHistory s) sid
                              \<lparr>role = Assistant, content = Blocks (response_content r)\<rparr>) sid
                              \<lparr>role = User, content = Blocks rs\<rparr>\<rparr>) \<and>
              length rs = length ?bs \<and>
              (\<forall>k < length rs. \<exists>v.
                 executeTool e (clock e (Suc (iterations s)) k) (tu_name (?bs ! k))
                   (tu_input (?bs ! k)) = Inr v \<and>
                 rs ! k = ToolResult (tu_id (?bs ! k)) (json_stringify e v))"
    by blast
qed

theorem executeTool_returns_witness:
  "executeTool demo_env demo_date ''get_weather'' (JObj [(''timezone'', JStr ''Europe/London'')]) =
     Inr (JObj [(''error'', JStr ''Unknown tool: get_weather'')])
   \<and> conforms_schema (JObj [(''timezone'', JStr ''Europe/London'')])
   \<and> (\<exists>v. executeTool demo_env demo_date ''get_current_time''
             (JObj [(''timezone'', JStr ''Europe/London'')]) = Inr v)
   \<and> messages_of (messageHistory (step_state (loop_body demo_env client_once ''default''
         (start_state Map.empty ''default'' ''hi'')))) ''default'' =
       [\<lparr>role = User, content = Plain ''hi''\<rparr>,
        \<lparr>role = Assistant,
         content = Blocks [Text ''Let me check.'',
                           ToolUse ''t1'' ''get_current_time'' (JObj []),
                           ToolUse ''t2'' ''get_weather'' JNull]\<rparr>,
        \<lparr>role = User,
         content = Blocks
           [ToolResult ''t1'' (demo_stringify (JObj
              [(''iso'', JStr ''2025-01-01T12:00:00.000Z''),
               (''formatted'', JStr ''1/1/2025, 12:00:00 PM''),
               (''timezone'', JStr ''UTC''),
               (''unix_timestamp'', JNum 1735732800)])),
            ToolResult ''t2'' (demo_stringify (JObj
              [(''error'', JStr ''Unknown tool: get_weather'')]))]\<rparr>]"
  using executeTool_returns [of "''get_weather''" demo_env demo_date
      "JObj [(''timezone'', JStr ''Europe/London'')]" client_once
      "start_state Map.empty ''default'' ''hi''" "''default''"
      "\<lparr>response_content =
               [Text ''Let me check.'',
                ToolUse ''t1'' ''get_current_time'' (JObj []),
                ToolUse ''t2'' ''get_weather'' JNull],
             stop_reason = ''tool_use'', response_usage = demo_usage\<rparr>"]
  by (simp add: demo_simps client_once_def del: demo_stringify.simps)

text \<open>
  Claim C5, as it is written, promises a note for every time zone value that is not a valid
  identifier.  The empty string is not one, and gets none: \<open>toolInput.timezone || 'UTC'\<close>
  replaces it by \<open>UTC\<close> before the formatting is tried, and the ordinary result comes back.
\<close>

theorem empty_timezone_has_no_note:
  "\<not> valid_timezone demo_env []
   \<and> executeTool demo_env demo_date ''get_current_time'' (JObj [(''timezone'', JStr [])]) =
       Inr (JObj [(''iso'', JStr ''2025-01-01T12:00:00.000Z''),
                  (''formatted'', JStr ''1/1/2025, 12:00:00 PM''),
                  (''timezone'', JStr ''UTC''),
                  (''unix_timestamp'', JNum 1735732800)])"
  by (simp add: demo_simps)

text \<open>
  Claim C5, amended.  When the \<open>timezone\<close> of the input is truthy (a non-empty string, for
  one), converts to a string, and that string is not a time zone the runtime knows, the time
  tool returns the fallback result: \<open>timezone\<close> is "UTC", \<open>formatted\<close> is the UTC string
  of the date, and \<open>note\<close> is \<open>Invalid timezone "<value>", defaulted to UTC\<close>.  A falsy
  \<open>timezone\<close> (absent, the empty string) is taken as unspecified: the result is the ordinary
  one for "UTC", without a note.
\<close>

theorem invalid_timezone_falls_back:
  "(get_timezone toolInput = Inr tz \<and> truthy tz \<and>
    to_string (number_to_string e) tz = Inr s \<and> \<not> valid_timezone e s \<longrightarrow>
      executeTool e now ''get_current_time'' toolInput =
        Inr (JObj [(''iso'', JStr (toISOString now)),
                   (''formatted'', JStr (toUTCString now)),
                   (''timezone'', JStr ''UTC''),
                   (''unix_timestamp'', JNum (of_int (getTime now div 1000))),
                   (''note'', JStr (''Invalid timezone '' @ [CHR 0x22] @ s @ [CHR 0x22]
                                     @ '', defaulted to UTC''))]))
   \<and> (get_timezone toolInput = Inr tz \<and> \<not> truthy tz \<and> valid_timezone e ''UTC'' \<longrightarrow>
        executeTool e now ''get_current_time'' toolInput =
          Inr (JObj [(''iso'', JStr (toISOString now)),
                     (''formatted'', JStr (format_en_US e now ''UTC'')),
                     (''timezone'', JStr ''UTC''),
                     (''unix_timestamp'', JNum (of_int (getTime now div 1000)))]))"
  by (simp add: executeTool_def toLocaleString_def invalid_timezone_note_def)

theorem invalid_timezone_falls_back_witness:
  "get_timezone (JObj [(''timezone'', JStr ''Mars/Phobos'')]) = Inr (JStr ''Mars/Phobos'')
   \<and> truthy (JStr ''Mars/Phobos'')
   \<and> \<not> valid_timezone demo_env ''Mars/Phobos''
   \<and> executeTool demo_env demo_date ''get_current_time'' (JObj [(''timezone'', JStr ''Mars/Phobos'')]) =
       Inr (JObj [(''iso'', JStr ''2025-01-01T12:00:00.000Z''),
                  (''formatted'', JStr ''Wed, 01 Jan 2025 12:00:00 GMT''),
                  (''timezone'', JStr ''UTC''),
                  (''unix_timestamp'', JNum 1735732800),
                  (''note'', JStr (''Invalid timezone '' @ [CHR 0x22] @ ''Mars/Phobos'' @ [CHR 0x22]
                                    @ '', defaulted to UTC''))])
   \<and> get_timezone (JObj []) = Inr JUndefined
   \<and> valid_timezone demo_env ''UTC''
   \<and> executeTool demo_env demo_date ''get_current_time'' (JObj []) =
       Inr (JObj [(''iso'', JStr ''2025-01-01T12:00:00.000Z''),
                  (''formatted'', JStr ''1/1/2025, 12:00:00 PM''),
                  (''timezone'', JStr ''UTC''),
                  (''unix_timestamp'', JNum 1735732800)])"
  using invalid_timezone_falls_back [of "JObj [(''timezone'', JStr ''Mars/Phobos'')]"
      "JStr ''Mars/Phobos''" demo_env "''Mars/Phobos''" demo_date]
    invalid_timezone_falls_back [of "JObj []" JUndefined demo_env "''UTC''" demo_date]
  by (simp add: demo_env_def demo_date_def)

section \<open>Tool rounds\<close>

lemma start_state_other:
  "sid' \<noteq> sid \<Longrightarrow> messageHistory (start_state history sid msg) sid' = history sid'"
  by (simp add: start_state_def)

lemma messages_of_cong:
  "h sid = h' sid \<Longrightarrow> messages_of h sid = messages_of h' sid"
  by (simp add: messages_of_def)

lemma answered_user [simp]:
  "answered [\<lparr>role = User, content = c\<rparr>]"
  by (simp add: asks_tools_def)

lemma answered_pair:
  "tool_round [a, u] \<Longrightarrow> answered [a, u]"
  by (simp add: answers_def asks_tools_def)

lemma loop_body_answered:
  assumes wf: "\<forall>p r. client p = Inr r \<longrightarrow> well_formed_response e r"
    and inv: "answered (messages_of (messageHistory s) sid)"
  shows "answered (messages_of (messageHistory (step_state (loop_body e client sid s))) sid)"
proof (cases "client (create_request (messages_of (messageHistory s) sid))")
  case (Inl x)
  with inv show ?thesis
    by (simp add: loop_body_client_fails)
next
  case (Inr r)
  let ?bs = "filter is_ToolUse (response_content r)"
  let ?a = "\<lparr>role = Assistant, content = Blocks (response_content r)\<rparr>"
  from wf Inr have wfr: "well_formed_response e r" by blast
  show ?thesis
  proof (cases "stop_reason r = ''tool_use'' \<and> ?bs \<noteq> []")
    case True
    from wfr have "list_all (tool_call_ok e) ?bs"
      by (simp add: well_formed_response_def)
    then obtain rs where rs: "tool_results e (Suc (iterations s)) 0 ?bs = Inr rs"
      using tool_results_ok [of e ?bs "Suc (iterations s)" 0] by blast
    from True have "?bs \<noteq> []" by simp
    from this rs have "tool_round [?a, \<lparr>role = User, content = Blocks rs\<rparr>]"
      by (rule tool_round_results)
    then have "answered [?a, \<lparr>role = User, content = Blocks rs\<rparr>]"
      by (rule answered_pair)
    with inv have "answered (messages_of (messageHistory s) sid @ [?a, \<lparr>role = User, content = Blocks rs\<rparr>])"
      by (rule answered_append)
    with Inr True rs show ?thesis
      by (simp add: loop_body_tools)
  next
    case False
    with wfr have "?bs = []"
      by (auto simp: well_formed_response_def)
    then have "answered [?a]"
      by (simp add: asks_tools_def tool_uses_def)
    with inv have "answered (messages_of (messageHistory s) sid @ [?a])"
      by (rule answered_append)
    with Inr False show ?thesis
      by (simp add: loop_body_terminal)
  qed
qed

lemma agent_loop_answered:
  assumes wf: "\<forall>p r. client p = Inr r \<longrightarrow> well_formed_response e r"
    and inv: "answered (messages_of (messageHistory s) sid)"
  shows "answered (messages_of (messageHistory (exit_state (agent_loop e client sid s))) sid)"
proof (rule agent_loop_invariant
    [where P = "\<lambda>s' :: loop_state. answered (messages_of (messageHistory s') sid)"])
  fix s' :: loop_state
  assume "answered (messages_of (messageHistory s') sid)"
  with wf show "answered (messages_of (messageHistory (step_state (loop_body e client sid s'))) sid)"
    by (rule loop_body_answered)
next
  from inv show "answered (messages_of (messageHistory s) sid)" .
qed

lemma answered_last:
  "answered (xs @ [a]) \<Longrightarrow> \<not> asks_tools a"
proof (induction xs rule: answered.induct)
  case 1
  then show ?case by simp
next
  case (2 t)
  then show ?case by simp
next
  case (3 t u ts)
  then show ?case by simp
qed

text \<open>
  Claim C2 asks that, in every transcript the loop produces, an assistant turn with tool-use
  blocks is immediately followed by a user turn with one tool result per tool-use id, in
  order, before the next call of the model.  The code breaks it on a response that carries a
  tool-use block with a stop reason other than \<open>tool_use\<close> (an answer cut at the token limit,
  for one): the loop takes its final branch, which its own comments call "no tool use", pushes
  the response as the last assistant turn and answers 200.  The transcript then ends with an
  assistant turn that asks for tools and that nothing answers; this at whatever iteration the
  response arrives.
\<close>

theorem other_stop_reason_leaves_tool_use_unanswered:
  assumes "message req_body = Some msg" and "msg \<noteq> []"
    and "rounds e client (session_of req_body) k
           (start_state history (session_of req_body) msg) = Some s"
    and "k < maxIterations"
    and "client (create_request (messages_of (messageHistory s) (session_of req_body))) = Inr r"
    and "stop_reason r \<noteq> ''tool_use''"
    and "filter is_ToolUse (response_content r) \<noteq> []"
  shows "status (snd (post_chat e client history req_body)) = 200
         \<and> messages_of (fst (post_chat e client history req_body)) (session_of req_body) =
             messages_of (messageHistory s) (session_of req_body)
               @ [\<lparr>role = Assistant, content = Blocks (response_content r)\<rparr>]
         \<and> asks_tools \<lparr>role = Assistant, content = Blocks (response_content r)\<rparr>
         \<and> \<not> answered (messages_of (fst (post_chat e client history req_body))
                          (session_of req_body))"
proof -
  let ?sid = "session_of req_body"
  let ?s0 = "start_state history ?sid msg"
  let ?a = "\<lparr>role = Assistant, content = Blocks (response_content r)\<rparr>"
  from rounds_iterations [OF assms(3)] assms(4) have "iterations s < maxIterations" by simp
  moreover from assms(6) have
    "\<not> (stop_reason r = ''tool_use'' \<and> filter is_ToolUse (response_content r) \<noteq> [])"
    by simp
  ultimately have "agent_loop e client ?sid s =
     Returned (s\<lparr>iterations := Suc (iterations s),
                 totalUsage := add_usage (totalUsage s) (response_usage r),
                 messageHistory := push (messageHistory s) ?sid ?a\<rparr>)
       \<lparr>status = 200,
        json = ChatReply (first_text (response_content r)) ?sid
                 (add_usage (totalUsage s) (response_usage r)) (Suc (iterations s))\<rparr>"
    using assms(5) agent_loop_terminal [where client = client and sid = ?sid and e = e and s = s and r = r]
    by blast
  with agent_loop_rounds [OF assms(3)] assms(1,2) have post:
    "post_chat e client history req_body =
       (push (messageHistory s) ?sid ?a,
        \<lparr>status = 200,
         json = ChatReply (first_text (response_content r)) ?sid
                  (add_usage (totalUsage s) (response_usage r)) (Suc (iterations s))\<rparr>)"
    by (simp add: post_chat_run)
  then have transcript: "messages_of (fst (post_chat e client history req_body)) ?sid =
             messages_of (messageHistory s) ?sid @ [?a]"
    by simp
  from assms(7) have asks: "asks_tools ?a"
    by (simp add: asks_tools_def tool_uses_def)
  with answered_last [of "messages_of (messageHistory s) ?sid" ?a] transcript
  have "\<not> answered (messages_of (fst (post_chat e client history req_body)) ?sid)"
    by auto
  with post transcript asks show ?thesis
    by simp
qed

theorem other_stop_reason_leaves_tool_use_unanswered_witness:
  "snd (post_chat demo_env client_cut Map.empty body_hi) =
     \<lparr>status = 200,
      json = ChatReply ''Let me check.'' ''default'' \<lparr>input_tokens = 12, output_tokens = 3\<rparr> 1\<rparr>
   \<and> messages_of (fst (post_chat demo_env client_cut Map.empty body_hi)) ''default'' =
       [\<lparr>role = User, content = Plain ''hi''\<rparr>,
        \<lparr>role = Assistant,
         content = Blocks [Text ''Let me check.'',
                           ToolUse ''t1'' ''get_current_time'' (JObj [])]\<rparr>]
   \<and> \<not> answered (messages_of (fst (post_chat demo_env client_cut Map.empty body_hi)) ''default'')"
proof -
  let ?s0 = "start_state Map.empty ''default'' ''hi''"
  let ?cut = "\<lparr>response_content =
            [Text ''Let me check.'', ToolUse ''t1'' ''get_current_time'' (JObj [])],
          stop_reason = ''max_tokens'', response_usage = demo_usage\<rparr>"
  have body: "message body_hi = Some ''hi''" "session_of body_hi = ''default''"
    by (simp_all add: body_hi_def session_of_def)
  have c: "client_cut (create_request (messages_of (messageHistory ?s0) ''default'')) = Inr ?cut"
    by (simp add: client_cut_def)
  from other_stop_reason_leaves_tool_use_unanswered
    [of body_hi "''hi''" demo_env client_cut 0 Map.empty ?s0 ?cut] body c
  have "messages_of (fst (post_chat demo_env client_cut Map.empty body_hi)) ''default'' =
       [\<lparr>role = User, content = Plain ''hi''\<rparr>,
        \<lparr>role = Assistant,
         content = Blocks [Text ''Let me check.'',
                           ToolUse ''t1'' ''get_current_time'' (JObj [])]\<rparr>]"
    and "\<not> answered (messages_of (fst (post_chat demo_env client_cut Map.empty body_hi)) ''default'')"
    by (simp_all add: maxIterations_def)
  moreover have "snd (post_chat demo_env client_cut Map.empty body_hi) =
     \<lparr>status = 200,
      json = ChatReply ''Let me check.'' ''default'' \<lparr>input_tokens = 12, output_tokens = 3\<rparr> 1\<rparr>"
    by (simp add: post_chat_def agent_loop.simps demo_simps client_cut_def first_text_def)
  ultimately show ?thesis
    by blast
qed

text \<open>
  The tool branch does what the claim asks.  Let every response of the model carry tool-use
  blocks only together with the stop reason \<open>tool_use\<close>, and let its tool calls be ones that
  return.  Then \<open>POST /chat\<close> keeps every transcript answered, in every session; and a pass
  of the loop on a \<open>tool_use\<close> response with a tool-use block pushes the assistant turn and
  the user turn of results, in this order, before the loop goes on to the next call of the
  model.
\<close>

theorem tool_rounds_are_answered:
  assumes wf: "\<forall>p r. client p = Inr r \<longrightarrow> well_formed_response e r"
  shows "(answered (messages_of history sid') \<longrightarrow>
            answered (messages_of (fst (post_chat e client history req_body)) sid'))
         \<and> (iterations s < maxIterations \<and>
              client (create_request (messages_of (messageHistory s) sid)) = Inr r \<and>
              stop_reason r = ''tool_use'' \<and> filter is_ToolUse (response_content r) \<noteq> [] \<longrightarrow>
              (\<exists>rs s'. loop_body e client sid s = Continue s' \<and>
                 agent_loop e client sid s = agent_loop e client sid s' \<and>
                 messages_of (messageHistory s') sid =
                   messages_of (messageHistory s) sid
                     @ [\<lparr>role = Assistant, content = Blocks (response_content r)\<rparr>,
                        \<lparr>role = User, content = Blocks rs\<rparr>] \<and>
                 list_all is_ToolResult rs \<and>
                 map tool_use_id rs = map tu_id (filter is_ToolUse (response_content r))))"
proof (intro conjI impI)
  assume old: "answered (messages_of history sid')"
  show "answered (messages_of (fst (post_chat e client history req_body)) sid')"
  proof (cases "message req_body = None \<or> message req_body = Some []")
    case True
    with old show ?thesis
      by (simp add: post_chat_rejects)
  next
    case False
    then obtain msg where msg: "message req_body = Some msg" "msg \<noteq> []"
      by auto
    let ?sid = "session_of req_body"
    let ?s0 = "start_state history ?sid msg"
    let ?end = "exit_state (agent_loop e client ?sid ?s0)"
    from msg have st: "fst (post_chat e client history req_body) = messageHistory ?end"
      by (rule post_chat_store)
    show ?thesis
    proof (cases "sid' = ?sid")
      case True
      from old True have "answered (messages_of history ?sid)"
        by simp
      then have "answered (messages_of history ?sid @ [\<lparr>role = User, content = Plain msg\<rparr>])"
        by (rule answered_append) (rule answered_user)
      then have "answered (messages_of (messageHistory ?s0) ?sid)"
        by simp
      with wf have "answered (messages_of (messageHistory ?end) ?sid)"
        by (rule agent_loop_answered)
      with st True show ?thesis by simp
    next
      case False
      then have "messageHistory ?end sid' = messageHistory ?s0 sid'"
        by (rule agent_loop_other)
      also from False have "\<dots> = history sid'"
        by (rule start_state_other)
      finally have "messages_of (messageHistory ?end) sid' = messages_of history sid'"
        by (rule messages_of_cong)
      with old st show ?thesis by simp
    qed
  qed
next
  let ?bs = "filter is_ToolUse (response_content r)"
  assume a: "iterations s < maxIterations \<and>
              client (create_request (messages_of (messageHistory s) sid)) = Inr r \<and>
              stop_reason r = ''tool_use'' \<and> ?bs \<noteq> []"
  with wf have "well_formed_response e r" by blast
  then have "list_all (tool_call_ok e) ?bs"
    by (simp add: well_formed_response_def)
  then obtain rs where rs: "tool_results e (Suc (iterations s)) 0 ?bs = Inr rs"
    using tool_results_ok [of e ?bs "Suc (iterations s)" 0] by blast
  let ?s' = "s\<lparr>iterations := Suc (iterations s),
                 totalUsage := add_usage (totalUsage s) (response_usage r),
                 messageHistory := push (push (messageHistory s) sid
                   \<lparr>role = Assistant, content = Blocks (response_content r)\<rparr>) sid
                   \<lparr>role = User, content = Blocks rs\<rparr>\<rparr>"
  from a rs have body: "loop_body e client sid s = Continue ?s'"
    by (simp add: loop_body_tools)
  with a have "agent_loop e client sid s = agent_loop e client sid ?s'"
    by (subst agent_loop.simps) simp
  moreover have "messages_of (messageHistory ?s') sid =
                   messages_of (messageHistory s) sid
                     @ [\<lparr>role = Assistant, content = Blocks (response_content r)\<rparr>,
                        \<lparr>role = User, content = Blocks rs\<rparr>]"
    by simp
  moreover from tool_results_shape [OF rs] have
    "list_all is_ToolResult rs" "map tool_use_id rs = map tu_id ?bs"
    by simp_all
  ultimately show "\<exists>rs s'. loop_body e client sid s = Continue s' \<and>
                 agent_loop e client sid s = agent_loop e client sid s' \<and>
                 messages_of (messageHistory s') sid =
                   messages_of (messageHistory s) sid
                     @ [\<lparr>role = Assistant, content = Blocks (response_content r)\<rparr>,
                        \<lparr>role = User, content = Blocks rs\<rparr>] \<and>
                 list_all is_ToolResult rs \<and>
                 map tool_use_id rs = map tu_id ?bs"
    using body by blast
qed

theorem tool_rounds_are_answered_witness:
  "answered (messages_of Map.empty ''default'')
   \<and> answered (messages_of (fst (post_chat demo_env client_once Map.empty body_hi)) ''default'')
   \<and> (\<exists>rs s'. loop_body demo_env client_once ''default'' (start_state Map.empty ''default'' ''hi'')
                   = Continue s' \<and>
         agent_loop demo_env client_once ''default'' (start_state Map.empty ''default'' ''hi'')
           = agent_loop demo_env client_once ''default'' s' \<and>
         messages_of (messageHistory s') ''default'' =
           [\<lparr>role = User, content = Plain ''hi''\<rparr>,
            \<lparr>role = Assistant,
             content = Blocks [Text ''Let me check.'',
                               ToolUse ''t1'' ''get_current_time'' (JObj []),
                               ToolUse ''t2'' ''get_weather'' JNull]\<rparr>,
            \<lparr>role = User, content = Blocks rs\<rparr>] \<and>
         list_all is_ToolResult rs \<and> map tool_use_id rs = [''t1'', ''t2''])"
proof -
  let ?s0 = "start_state Map.empty ''default'' ''hi''"
  let ?first = "\<lparr>response_content =
               [Text ''Let me check.'',
                ToolUse ''t1'' ''get_current_time'' (JObj []),
                ToolUse ''t2'' ''get_weather'' JNull],
             stop_reason = ''tool_use'', response_usage = demo_usage\<rparr>"
  have wf: "\<forall>p r. client_once p = Inr r \<longrightarrow> well_formed_response demo_env r"
    by (auto simp: client_once_def well_formed_response_def tool_call_ok_def input_accepted_def
        split: if_splits)
  have c: "client_once (create_request (messages_of (messageHistory ?s0) ''default'')) = Inr ?first"
    by (simp add: client_once_def create_request_def)
  from tool_rounds_are_answered [OF wf, of Map.empty "''default''" body_hi ?s0 "''default''" ?first] c
  show ?thesis
    by (simp add: maxIterations_def)
qed

section \<open>The iteration limit\<close>

lemma rounds_exist:
  assumes always: "\<forall>p. \<exists>r. client p = Inr r \<and> stop_reason r = ''tool_use'' \<and>
              filter is_ToolUse (response_content r) \<noteq> [] \<and>
              list_all (tool_call_ok e) (filter is_ToolUse (response_content r))"
  shows "iterations s + k \<le> maxIterations \<Longrightarrow> \<exists>s'. rounds e client sid k s = Some s'"
proof (induction k arbitrary: s)
  case 0
  then show ?case by simp
next
  case (Suc k)
  from always obtain r where
    r: "client (create_request (messages_of (messageHistory s) sid)) = Inr r"
       "stop_reason r = ''tool_use''" "filter is_ToolUse (response_content r) \<noteq> []"
       "list_all (tool_call_ok e) (filter is_ToolUse (response_content r))"
    by blast
  from r(4) obtain rs where
    "tool_results e (Suc (iterations s)) 0 (filter is_ToolUse (response_content r)) = Inr rs"
    using tool_results_ok [of e "filter is_ToolUse (response_content r)" "Suc (iterations s)" 0]
    by blast
  with r obtain s1 where body: "loop_body e client sid s = Continue s1"
    by (simp add: loop_body_tools)
  then have "iterations s1 = Suc (iterations s)"
    by (rule loop_body_iterations)
  with Suc.prems have "iterations s1 + k \<le> maxIterations" by simp
  from Suc.IH [OF this] obtain s' where "rounds e client sid k s1 = Some s'" ..
  with body Suc.prems show ?case by simp
qed

text \<open>
  Claim C3, as it is written, holds of every model that always answers \<open>tool_use\<close> with a
  tool-use block.  When such a block asks for the time with no input object, the tool raises,
  and the request ends in its first iteration with "Failed to get response from LLM", one
  assistant turn appended.
\<close>

theorem null_input_ends_the_request:
  "snd (post_chat demo_env client_null Map.empty body_hi) =
     \<lparr>status = 500, json = ErrorBody ''Failed to get response from LLM''\<rparr>
   \<and> messages_of (fst (post_chat demo_env client_null Map.empty body_hi)) ''default'' =
       [\<lparr>role = User, content = Plain ''hi''\<rparr>,
        \<lparr>role = Assistant, content = Blocks [ToolUse ''t1'' ''get_current_time'' JNull]\<rparr>]"
  by (simp add: post_chat_def agent_loop.simps demo_simps client_null_def)

text \<open>
  Claim C3, amended.  When the model answers every call with stop reason \<open>tool_use\<close> and at
  least one tool-use block, and every tool call returns, \<open>POST /chat\<close> answers 500 "Agent
  loop exceeded maximum iterations"; the loop is left by its condition after exactly 10 passes,
  each of them a tool round, and the transcript that stays in the store is the earlier one,
  the user turn, and exactly 10 assistant/user pairs.
\<close>

theorem always_tool_use_hits_limit:
  assumes "message req_body = Some msg" and "msg \<noteq> []"
    and "\<forall>p. \<exists>r. client p = Inr r \<and> stop_reason r = ''tool_use'' \<and>
              filter is_ToolUse (response_content r) \<noteq> [] \<and>
              list_all (tool_call_ok e) (filter is_ToolUse (response_content r))"
  shows "snd (post_chat e client history req_body) =
           \<lparr>status = 500, json = ErrorBody ''Agent loop exceeded maximum iterations''\<rparr>
         \<and> (\<exists>s. rounds e client (session_of req_body) 10
                   (start_state history (session_of req_body) msg) = Some s \<and>
                 agent_loop e client (session_of req_body)
                   (start_state history (session_of req_body) msg) = Exhausted s \<and>
                 iterations s = 10 \<and>
                 fst (post_chat e client history req_body) = messageHistory s)
         \<and> (\<exists>pairs. length pairs = 10 \<and> list_all tool_round pairs \<and>
               messages_of (fst (post_chat e client history req_body)) (session_of req_body) =
                 messages_of history (session_of req_body)
                   @ [\<lparr>role = User, content = Plain msg\<rparr>] @ concat pairs)"
proof -
  let ?sid = "session_of req_body"
  let ?s0 = "start_state history ?sid msg"
  have "iterations ?s0 + 10 \<le> maxIterations"
    by (simp add: maxIterations_def)
  from rounds_exist [OF assms(3) this] obtain s where
    s: "rounds e client ?sid 10 ?s0 = Some s" ..
  from rounds_iterations [OF s] have it: "iterations s = 10"
    by simp
  then have "agent_loop e client ?sid s = Exhausted s"
    by (simp add: agent_loop_exhausted maxIterations_def)
  with agent_loop_rounds [OF s] have run: "agent_loop e client ?sid ?s0 = Exhausted s"
    by simp
  with assms(1,2) have post: "post_chat e client history req_body =
      (messageHistory s,
       \<lparr>status = 500, json = ErrorBody ''Agent loop exceeded maximum iterations''\<rparr>)"
    by (simp add: post_chat_run)
  from rounds_pairs [OF s] obtain pairs where
    "length pairs = 10" "list_all tool_round pairs"
    "messages_of (messageHistory s) ?sid = messages_of (messageHistory ?s0) ?sid @ concat pairs"
    by blast
  with post have "\<exists>pairs. length pairs = 10 \<and> list_all tool_round pairs \<and>
               messages_of (fst (post_chat e client history req_body)) ?sid =
                 messages_of history ?sid @ [\<lparr>role = User, content = Plain msg\<rparr>] @ concat pairs"
    by auto
  with post s run it show ?thesis
    by auto
qed

theorem always_tool_use_hits_limit_witness:
  "message body_hi = Some ''hi''
   \<and> snd (post_chat demo_env client_always Map.empty body_hi) =
       \<lparr>status = 500, json = ErrorBody ''Agent loop exceeded maximum iterations''\<rparr>
   \<and> (\<exists>pairs. length pairs = 10 \<and> list_all tool_round pairs \<and>
         messages_of (fst (post_chat demo_env client_always Map.empty body_hi)) ''default'' =
           \<lparr>role = User, content = Plain ''hi''\<rparr> # concat pairs)"
proof -
  have always: "\<forall>p. \<exists>r. client_always p = Inr r \<and> stop_reason r = ''tool_use'' \<and>
              filter is_ToolUse (response_content r) \<noteq> [] \<and>
              list_all (tool_call_ok demo_env) (filter is_ToolUse (response_content r))"
    by (simp add: client_always_def tool_call_ok_def input_accepted_def)
  have body: "message body_hi = Some ''hi''" "session_of body_hi = ''default''"
    by (simp_all add: body_hi_def session_of_def)
  from always_tool_use_hits_limit [OF body(1) _ always, of Map.empty] body
  show ?thesis
    by simp
qed

end
